theory Spec2Isabelle
  imports Complex_Main "HOL-Library.AList"
begin

section \<open>Hospital administration core: billing, beds, inpatient stays, appointments\<close>

text \<open>
  JavaScript numbers that carry money amounts and percentages are modelled as exact
  rationals (\<open>rat\<close>): rounding of IEEE doubles is outside the model.  Document
  identifiers (ObjectIds) are strings.  A collection of the document store is an
  association list from identifier to document, in insertion order.
\<close>

type_synonym oid = string

text \<open>
  An operation of a controller returns either an error response or the store after the
  operation.  The responses: 404 with its message, 400 with its message, the 400 of
  \<open>addPayment\<close> whose message carries the maximum payable amount, and the errors that
  the document layer raises: a failed schema validator, a violated unique index.
\<close>

datatype error =
    NotFound string
  | BadRequest string
  | AmountExceedsBalance rat
  | ValidationError string
  | DuplicateKey string

subsection \<open>Invoices (models/Billing.js)\<close>

datatype payment_status = PENDING | PARTIAL | PAID | REFUNDED

datatype payment_method = Cash | Card | UPI | Insurance | BankTransfer | OtherMethod

text \<open>
  A line item.  \<open>svc_total\<close> is optional in a document: a client may send line items
  without it, and the save hook fills it in.
\<close>

record service =
  svc_description :: string
  svc_quantity :: rat
  svc_unitPrice :: rat
  svc_discount :: rat
  svc_total :: "rat option"

record payment =
  pay_amount :: rat
  pay_method :: payment_method
  pay_transactionId :: "string option"
  pay_date :: int
  pay_receivedBy :: oid
  pay_notes :: "string option"

record billing =
  patientId :: oid
  services :: "service list"
  subtotal :: rat
  tax_percentage :: rat
  tax_amount :: rat
  discount_percentage :: rat
  discount_amount :: rat
  totalAmount :: rat
  paidAmount :: rat
  balanceAmount :: rat
  paymentStatus :: payment_status
  payments :: "payment list"

text \<open>
  The \<open>pre('save')\<close> hook of the billing schema, lines 159-186: the derived fields
  are recomputed from the line items, the percentages and the paid amount, one
  assignment of the hook after the other.  (The invoice-number prefix of the hook, lines
  151-157, touches no field modelled here.)  The \<open>None\<close> branch of the sum is the
  JavaScript \<open>undefined\<close>; it is never taken, because every line total has just been
  assigned.
\<close>

definition service_set_total :: "service \<Rightarrow> service" where
  "service_set_total s =
     s\<lparr>svc_total := Some ((svc_unitPrice s * svc_quantity s) - svc_discount s)\<rparr>"

definition total_or_zero :: "service \<Rightarrow> rat" where
  "total_or_zero s = (case svc_total s of Some t \<Rightarrow> t | None \<Rightarrow> 0)"

definition set_service_totals :: "billing \<Rightarrow> billing" where
  "set_service_totals b = b\<lparr>services := map service_set_total (services b)\<rparr>"

definition set_subtotal :: "billing \<Rightarrow> billing" where
  "set_subtotal b = b\<lparr>subtotal := foldl (\<lambda>sum s. sum + total_or_zero s) 0 (services b)\<rparr>"

definition set_tax_amount :: "billing \<Rightarrow> billing" where
  "set_tax_amount b = b\<lparr>tax_amount := (subtotal b * tax_percentage b) / 100\<rparr>"

definition set_discount_amount :: "billing \<Rightarrow> billing" where
  "set_discount_amount b =
     (if discount_percentage b > 0
      then b\<lparr>discount_amount := (subtotal b * discount_percentage b) / 100\<rparr>
      else b)"

definition set_total :: "billing \<Rightarrow> billing" where
  "set_total b = b\<lparr>totalAmount := subtotal b + tax_amount b - discount_amount b\<rparr>"

definition set_balance :: "billing \<Rightarrow> billing" where
  "set_balance b = b\<lparr>balanceAmount := totalAmount b - paidAmount b\<rparr>"

definition set_payment_status :: "billing \<Rightarrow> billing" where
  "set_payment_status b =
     (if paidAmount b \<ge> totalAmount b then b\<lparr>paymentStatus := PAID\<rparr>
      else if paidAmount b > 0 then b\<lparr>paymentStatus := PARTIAL\<rparr>
      else b)"

definition billing_pre_save :: "billing \<Rightarrow> billing" where
  "billing_pre_save b =
     set_payment_status (set_balance (set_total (set_discount_amount (set_tax_amount
       (set_subtotal (set_service_totals b))))))"

text \<open>
  The validators declared in the schema (\<open>min\<close> on quantity, unit price, line
  discount, line total, subtotal, total and paid amount; \<open>required\<close> on the
  description).  The document layer runs them on \<open>save\<close> before the hook above, and on
  the supplied fields of an update when \<open>runValidators\<close> is set.
\<close>

definition service_valid :: "service \<Rightarrow> bool" where
  "service_valid s =
     (svc_description s \<noteq> [] \<and> 1 \<le> svc_quantity s \<and> 0 \<le> svc_unitPrice s \<and>
      0 \<le> svc_discount s \<and> (case svc_total s of None \<Rightarrow> True | Some t \<Rightarrow> 0 \<le> t))"

definition billing_valid :: "billing \<Rightarrow> bool" where
  "billing_valid b =
     (list_all service_valid (services b) \<and> 0 \<le> subtotal b \<and> 0 \<le> totalAmount b \<and>
      0 \<le> paidAmount b)"

subsection \<open>Beds (models/Bed.js)\<close>

datatype bed_status = AVAILABLE | OCCUPIED | MAINTENANCE | RESERVED

text \<open>
  The fields of a bed that the controllers read or write here; \<open>currentPatient\<close> is
  \<open>None\<close> for the JavaScript \<open>null\<close>.  (Ward type, floor, facilities and cleaning
  date are carried by the schema but read by no operation below.)
\<close>

record bed =
  bedNumber :: string
  ward :: string
  bed_state :: bed_status
  currentPatient :: "oid option"
  dailyRate :: rat
  bed_notes :: "string option"

subsection \<open>Inpatient stays (models/IPDRecord.js)\<close>

text \<open>
  The stay with its treatment notes.  (The save hooks of the stay and appointment schemas
  only assign the human-readable record numbers, which are not modelled; medication,
  surgery and vital-sign logs are read by no operation below.)
\<close>

datatype ipd_status = ADMITTED | DISCHARGED | TRANSFERRED

record treatment_note =
  tn_date :: int
  tn_note :: string
  tn_addedBy :: oid

record discharge_medication =
  dm_medicine :: "string option"
  dm_dosage :: "string option"
  dm_duration :: "string option"

record discharge_summary =
  ds_condition :: "string option"
  ds_instructions :: "string option"
  ds_followUpDate :: "int option"
  ds_medications :: "discharge_medication list"

record ipd_record =
  ipd_patientId :: oid
  ipd_doctorId :: oid
  ipd_bedId :: oid
  admissionDate :: int
  dischargeDate :: "int option"
  admissionReason :: string
  diagnosis :: "string option"
  ipd_state :: ipd_status
  treatmentNotes :: "treatment_note list"
  dischargeSummary :: "discharge_summary option"

subsection \<open>Doctors and appointments (models/Appointment.js, the doctor schema)\<close>

record availability_window =
  av_day :: string
  av_startTime :: string
  av_endTime :: string

record doctor =
  availability :: "availability_window list"
  slotDuration :: int
  consultationFee :: rat

datatype appointment_status = SCHEDULED | CONFIRMED | COMPLETED | CANCELLED | NO_SHOW

datatype appointment_type = Consultation | FollowUp | Emergency | RoutineCheckup

text \<open>
  A date is a timestamp in milliseconds, read in the server's local time with days of
  exactly 86400000 ms (no daylight-saving shifts); a time of day is the string token.
\<close>

record appointment =
  apt_patientId :: oid
  apt_doctorId :: oid
  apt_date :: int
  apt_time :: string
  apt_type :: appointment_type
  apt_state :: appointment_status
  apt_symptoms :: "string option"
  apt_notes :: "string option"
  apt_fee :: rat
  apt_cancelReason :: "string option"
  apt_cancelledBy :: "oid option"

subsection \<open>The document store\<close>

record store =
  patients :: "oid list"
  doctors :: "(oid \<times> doctor) list"
  beds :: "(oid \<times> bed) list"
  ipdRecords :: "(oid \<times> ipd_record) list"
  appointments :: "(oid \<times> appointment) list"
  bills :: "(oid \<times> billing) list"

text \<open>
  \<open>Model.findById\<close>, the write of a saved document (a fresh identifier is appended, an
  existing one replaced in place), \<open>findByIdAndUpdate\<close> (nothing happens when the
  identifier is absent) and \<open>deleteOne\<close>.
\<close>

definition findById :: "oid \<Rightarrow> (oid \<times> 'a) list \<Rightarrow> 'a option" where
  "findById i xs = map_of xs i"

definition put_doc :: "oid \<Rightarrow> 'a \<Rightarrow> (oid \<times> 'a) list \<Rightarrow> (oid \<times> 'a) list" where
  "put_doc i d xs = AList.update i d xs"

definition findByIdAndUpdate :: "oid \<Rightarrow> ('a \<Rightarrow> 'a) \<Rightarrow> (oid \<times> 'a) list \<Rightarrow> (oid \<times> 'a) list" where
  "findByIdAndUpdate i f xs = AList.map_entry i f xs"

definition deleteOne :: "oid \<Rightarrow> (oid \<times> 'a) list \<Rightarrow> (oid \<times> 'a) list" where
  "deleteOne i xs = AList.delete i xs"

subsection \<open>Billing controller\<close>

text \<open>\<open>document.save()\<close> of a bill: validation, then the hook, then the write.\<close>

definition save_bill :: "oid \<Rightarrow> billing \<Rightarrow> store \<Rightarrow> error + store" where
  "save_bill i b st =
     (if \<not> billing_valid b then Inl (ValidationError ''Billing validation failed'')
      else Inr (st\<lparr>bills := put_doc i (billing_pre_save b) (bills st)\<rparr>))"

text \<open>
  Request bodies.  An absent JSON field is \<open>None\<close>; \<open>truthy\<close> and \<open>or_default\<close> are
  JavaScript's truthiness of a number and \<open>x || d\<close>, \<open>schema_default\<close> the schema default
  for an absent field.
\<close>

definition truthy :: "rat option \<Rightarrow> bool" where
  "truthy x = (case x of None \<Rightarrow> False | Some v \<Rightarrow> v \<noteq> 0)"

definition or_default :: "rat option \<Rightarrow> rat \<Rightarrow> rat" where
  "or_default x d = (case x of None \<Rightarrow> d | Some v \<Rightarrow> if v = 0 then d else v)"

definition schema_default :: "'a option \<Rightarrow> 'a \<Rightarrow> 'a" where
  "schema_default x d = (case x of None \<Rightarrow> d | Some v \<Rightarrow> v)"

record service_input =
  si_description :: string
  si_quantity :: "rat option"
  si_unitPrice :: rat
  si_discount :: "rat option"

record bill_request =
  br_patientId :: oid
  br_services :: "service_input list"
  br_tax_percentage :: "rat option"
  br_discount_percentage :: "rat option"
  br_discount_amount :: "rat option"

text \<open>\<open>createBill\<close>, lines 105-161.\<close>

definition process_service :: "service_input \<Rightarrow> service" where
  "process_service si =
     (let total = (si_unitPrice si * or_default (si_quantity si) 1) - or_default (si_discount si) 0
      in \<lparr>svc_description = si_description si,
          svc_quantity = schema_default (si_quantity si) 1,
          svc_unitPrice = si_unitPrice si,
          svc_discount = schema_default (si_discount si) 0,
          svc_total = Some total\<rparr>)"

definition createBill :: "oid \<Rightarrow> bill_request \<Rightarrow> store \<Rightarrow> error + store" where
  "createBill new_id req st =
     (if br_patientId req \<notin> set (patients st) then Inl (NotFound ''Patient not found'')
      else
        let processedServices = map process_service (br_services req);
            subtotal' = foldl (\<lambda>sum s. sum + total_or_zero s) 0 processedServices;
            taxAmount = (if truthy (br_tax_percentage req)
                         then (subtotal' * or_default (br_tax_percentage req) 0) / 100 else 0);
            discountAmount = (if truthy (br_discount_percentage req)
                              then (subtotal' * or_default (br_discount_percentage req) 0) / 100
                              else or_default (br_discount_amount req) 0);
            totalAmount' = subtotal' + taxAmount - discountAmount
        in save_bill new_id
             \<lparr>patientId = br_patientId req,
              services = processedServices,
              subtotal = subtotal',
              tax_percentage = or_default (br_tax_percentage req) 0,
              tax_amount = taxAmount,
              discount_percentage = or_default (br_discount_percentage req) 0,
              discount_amount = discountAmount,
              totalAmount = totalAmount',
              paidAmount = 0,
              balanceAmount = totalAmount',
              paymentStatus = PENDING,
              payments = []\<rparr> st)"

text \<open>
  \<open>updateBill\<close>, lines 168-198.  The body is written through \<open>findByIdAndUpdate\<close>
  with \<open>runValidators\<close>: the supplied fields overwrite the stored ones, the schema's
  validators run on the supplied fields, and no save hook runs.  Nested fields are given
  by their dotted paths.
\<close>

record bill_patch =
  blp_services :: "service list option"
  blp_subtotal :: "rat option"
  blp_tax_percentage :: "rat option"
  blp_tax_amount :: "rat option"
  blp_discount_percentage :: "rat option"
  blp_discount_amount :: "rat option"
  blp_totalAmount :: "rat option"
  blp_paidAmount :: "rat option"
  blp_balanceAmount :: "rat option"
  blp_paymentStatus :: "payment_status option"

definition bill_patch_valid :: "bill_patch \<Rightarrow> bool" where
  "bill_patch_valid p =
     ((case blp_services p of None \<Rightarrow> True | Some ss \<Rightarrow> list_all service_valid ss) \<and>
      (case blp_subtotal p of None \<Rightarrow> True | Some v \<Rightarrow> 0 \<le> v) \<and>
      (case blp_totalAmount p of None \<Rightarrow> True | Some v \<Rightarrow> 0 \<le> v) \<and>
      (case blp_paidAmount p of None \<Rightarrow> True | Some v \<Rightarrow> 0 \<le> v))"

definition apply_bill_patch :: "bill_patch \<Rightarrow> billing \<Rightarrow> billing" where
  "apply_bill_patch p b =
     b\<lparr>services := schema_default (blp_services p) (services b),
       subtotal := schema_default (blp_subtotal p) (subtotal b),
       tax_percentage := schema_default (blp_tax_percentage p) (tax_percentage b),
       tax_amount := schema_default (blp_tax_amount p) (tax_amount b),
       discount_percentage := schema_default (blp_discount_percentage p) (discount_percentage b),
       discount_amount := schema_default (blp_discount_amount p) (discount_amount b),
       totalAmount := schema_default (blp_totalAmount p) (totalAmount b),
       paidAmount := schema_default (blp_paidAmount p) (paidAmount b),
       balanceAmount := schema_default (blp_balanceAmount p) (balanceAmount b),
       paymentStatus := schema_default (blp_paymentStatus p) (paymentStatus b)\<rparr>"

definition updateBill :: "oid \<Rightarrow> bill_patch \<Rightarrow> store \<Rightarrow> error + store" where
  "updateBill i body st =
     (case findById i (bills st) of
        None \<Rightarrow> Inl (NotFound ''Bill not found'')
      | Some bill \<Rightarrow>
          if paymentStatus bill = PAID then Inl (BadRequest ''Cannot update a fully paid bill'')
          else if \<not> bill_patch_valid body then Inl (ValidationError ''Validation failed'')
          else Inr (st\<lparr>bills := findByIdAndUpdate i (apply_bill_patch body) (bills st)\<rparr>))"

text \<open>
  \<open>addPayment\<close>, lines 235-287.  \<open>user\<close> is the authenticated actor and \<open>now\<close> the
  clock (the schema default of a payment's date).  The message of the second rejection
  carries the stored balance as the maximum payable amount.
\<close>

record payment_request =
  pr_amount :: rat
  pr_method :: payment_method
  pr_transactionId :: "string option"
  pr_notes :: "string option"

definition push_payment :: "oid \<Rightarrow> int \<Rightarrow> payment_request \<Rightarrow> billing \<Rightarrow> billing" where
  "push_payment user now req bill =
     bill\<lparr>payments := payments bill @
        [\<lparr>pay_amount = pr_amount req, pay_method = pr_method req,
          pay_transactionId = pr_transactionId req, pay_date = now,
          pay_receivedBy = user, pay_notes = pr_notes req\<rparr>]\<rparr>"

definition add_paid :: "rat \<Rightarrow> billing \<Rightarrow> billing" where
  "add_paid amount bill = bill\<lparr>paidAmount := paidAmount bill + amount\<rparr>"

definition set_status_from_balance :: "billing \<Rightarrow> billing" where
  "set_status_from_balance bill =
     (if balanceAmount bill \<le> 0 then bill\<lparr>paymentStatus := PAID\<rparr>
      else bill\<lparr>paymentStatus := PARTIAL\<rparr>)"

definition addPayment :: "oid \<Rightarrow> int \<Rightarrow> oid \<Rightarrow> payment_request \<Rightarrow> store \<Rightarrow> error + store" where
  "addPayment user now i req st =
     (case findById i (bills st) of
        None \<Rightarrow> Inl (NotFound ''Bill not found'')
      | Some bill \<Rightarrow>
          if paymentStatus bill = PAID then Inl (BadRequest ''Bill is already fully paid'')
          else if pr_amount req > balanceAmount bill
          then Inl (AmountExceedsBalance (balanceAmount bill))
          else save_bill i
                 (set_status_from_balance (set_balance (add_paid (pr_amount req)
                    (push_payment user now req bill)))) st)"

subsection \<open>Bed controller (controllers/bedController.js)\<close>

text \<open>
  \<open>createBed\<close> (lines 76-83) and \<open>updateBed\<close> (lines 90-109) hand the request body to
  the document layer as it is: a client may supply the status and the occupant.  The
  schema requires a bed number (unique), a ward and a non-negative daily rate.
\<close>

record bed_input =
  bi_bedNumber :: string
  bi_ward :: string
  bi_status :: "bed_status option"
  bi_currentPatient :: "oid option"
  bi_dailyRate :: rat
  bi_notes :: "string option"

definition bed_valid :: "bed \<Rightarrow> bool" where
  "bed_valid b = (bedNumber b \<noteq> [] \<and> ward b \<noteq> [] \<and> 0 \<le> dailyRate b)"

definition createBed :: "oid \<Rightarrow> bed_input \<Rightarrow> store \<Rightarrow> error + store" where
  "createBed new_id body st =
     (let b = \<lparr>bedNumber = bi_bedNumber body, ward = bi_ward body,
               bed_state = schema_default (bi_status body) AVAILABLE,
               currentPatient = bi_currentPatient body,
               dailyRate = bi_dailyRate body, bed_notes = bi_notes body\<rparr>
      in if \<not> bed_valid b then Inl (ValidationError ''Bed validation failed'')
         else if bedNumber b \<in> set (map (\<lambda>(j, x). bedNumber x) (beds st))
         then Inl (DuplicateKey ''bedNumber'')
         else Inr (st\<lparr>beds := put_doc new_id b (beds st)\<rparr>))"

record bed_patch =
  bdp_bedNumber :: "string option"
  bdp_ward :: "string option"
  bdp_status :: "bed_status option"
  bdp_currentPatient :: "oid option option"
  bdp_dailyRate :: "rat option"
  bdp_notes :: "string option"

definition bed_patch_valid :: "bed_patch \<Rightarrow> bool" where
  "bed_patch_valid p =
     ((case bdp_bedNumber p of None \<Rightarrow> True | Some n \<Rightarrow> n \<noteq> []) \<and>
      (case bdp_ward p of None \<Rightarrow> True | Some w \<Rightarrow> w \<noteq> []) \<and>
      (case bdp_dailyRate p of None \<Rightarrow> True | Some r \<Rightarrow> 0 \<le> r))"

definition apply_bed_patch :: "bed_patch \<Rightarrow> bed \<Rightarrow> bed" where
  "apply_bed_patch p b =
     b\<lparr>bedNumber := schema_default (bdp_bedNumber p) (bedNumber b),
       ward := schema_default (bdp_ward p) (ward b),
       bed_state := schema_default (bdp_status p) (bed_state b),
       currentPatient := schema_default (bdp_currentPatient p) (currentPatient b),
       dailyRate := schema_default (bdp_dailyRate p) (dailyRate b),
       bed_notes := (case bdp_notes p of None \<Rightarrow> bed_notes b | Some n \<Rightarrow> Some n)\<rparr>"

definition updateBed :: "oid \<Rightarrow> bed_patch \<Rightarrow> store \<Rightarrow> error + store" where
  "updateBed i body st =
     (case findById i (beds st) of
        None \<Rightarrow> Inl (NotFound ''Bed not found'')
      | Some bed \<Rightarrow>
          if \<not> bed_patch_valid body then Inl (ValidationError ''Validation failed'')
          else if (case bdp_bedNumber body of None \<Rightarrow> False
                   | Some n \<Rightarrow> n \<in> set (map (\<lambda>(j, x). bedNumber x)
                                        (filter (\<lambda>(j, x). j \<noteq> i) (beds st))))
          then Inl (DuplicateKey ''bedNumber'')
          else Inr (st\<lparr>beds := findByIdAndUpdate i (apply_bed_patch body) (beds st)\<rparr>))"

text \<open>\<open>deleteBed\<close>, lines 116-139.\<close>

definition deleteBed :: "oid \<Rightarrow> store \<Rightarrow> error + store" where
  "deleteBed i st =
     (case findById i (beds st) of
        None \<Rightarrow> Inl (NotFound ''Bed not found'')
      | Some bed \<Rightarrow>
          if bed_state bed = OCCUPIED then Inl (BadRequest ''Cannot delete an occupied bed'')
          else Inr (st\<lparr>beds := deleteOne i (beds st)\<rparr>))"

text \<open>
  \<open>markMaintenance\<close>, lines 220-245; \<open>notes\<close> is the optional \<open>req.body.notes\<close>, whose
  empty string is falsy.  The saved bed differs from the stored one in its status and
  notes only, which carry no validator that can fail.
\<close>

definition maintenance_notes :: "string option \<Rightarrow> string" where
  "maintenance_notes notes =
     (case notes of None \<Rightarrow> ''Under maintenance''
      | Some n \<Rightarrow> if n = [] then ''Under maintenance'' else n)"

definition markMaintenance :: "oid \<Rightarrow> string option \<Rightarrow> store \<Rightarrow> error + store" where
  "markMaintenance i notes st =
     (case findById i (beds st) of
        None \<Rightarrow> Inl (NotFound ''Bed not found'')
      | Some bed \<Rightarrow>
          if bed_state bed = OCCUPIED
          then Inl (BadRequest ''Cannot mark occupied bed for maintenance'')
          else
            let bed1 = bed\<lparr>bed_state := MAINTENANCE\<rparr>;
                bed2 = bed1\<lparr>bed_notes := Some (maintenance_notes notes)\<rparr>
            in Inr (st\<lparr>beds := put_doc i bed2 (beds st)\<rparr>))"

subsection \<open>Inpatient controller (admitPatient, dischargePatient, transferPatient)\<close>

text \<open>
  \<open>admitPatient\<close>, lines 568-639.  \<open>new_id\<close> is the identifier generated for the new
  record and \<open>now\<close> the clock.  The schema requires a doctor and a non-empty admission
  reason; \<open>IPDRecord.create\<close> raises a validation error without them.  The diagnosis
  of a request is absent or an object that the schema casts, and \<open>ar_diagnosis\<close> is its
  primary diagnosis.
\<close>

record admit_request =
  ar_patientId :: oid
  ar_doctorId :: "oid option"
  ar_bedId :: oid
  ar_admissionReason :: string
  ar_diagnosis :: "string option"

definition admitPatient :: "oid \<Rightarrow> int \<Rightarrow> admit_request \<Rightarrow> store \<Rightarrow> error + store" where
  "admitPatient new_id now req st =
     (if ar_patientId req \<notin> set (patients st) then Inl (NotFound ''Patient not found'')
      else case findById (ar_bedId req) (beds st) of
        None \<Rightarrow> Inl (NotFound ''Bed not found'')
      | Some bed \<Rightarrow>
          if bed_state bed \<noteq> AVAILABLE then Inl (BadRequest ''Bed is not available'')
          else case find (\<lambda>(j, r). ipd_patientId r = ar_patientId req \<and> ipd_state r = ADMITTED)
                         (ipdRecords st) of
            Some existingAdmission \<Rightarrow> Inl (BadRequest ''Patient is already admitted'')
          | None \<Rightarrow>
              (case ar_doctorId req of
                 None \<Rightarrow> Inl (ValidationError ''IPDRecord validation failed'')
               | Some doctorId \<Rightarrow>
                   if ar_admissionReason req = []
                   then Inl (ValidationError ''IPDRecord validation failed'')
                   else
                     let record = \<lparr>ipd_patientId = ar_patientId req, ipd_doctorId = doctorId,
                                    ipd_bedId = ar_bedId req, admissionDate = now,
                                    dischargeDate = None,
                                    admissionReason = ar_admissionReason req,
                                    diagnosis = ar_diagnosis req, ipd_state = ADMITTED,
                                    treatmentNotes = [], dischargeSummary = None\<rparr>;
                         st1 = st\<lparr>ipdRecords := put_doc new_id record (ipdRecords st)\<rparr>;
                         bed1 = bed\<lparr>bed_state := OCCUPIED\<rparr>;
                         bed2 = bed1\<lparr>currentPatient := Some (ar_patientId req)\<rparr>
                     in Inr (st1\<lparr>beds := put_doc (ar_bedId req) bed2 (beds st1)\<rparr>)))"

text \<open>The update that frees a bed, as \<open>dischargePatient\<close> and \<open>transferPatient\<close> write it.\<close>

definition free_bed :: "bed \<Rightarrow> bed" where
  "free_bed b = b\<lparr>bed_state := AVAILABLE, currentPatient := None\<rparr>"

text \<open>
  The value of \<open>req.body.dischargeSummary\<close>.  The schema declares the path as a nested
  object (models/IPDRecord.js, lines 96-105), and the assignment
  \<open>record.dischargeSummary = ...\<close> casts the value to it.  An absent value leaves the path
  unset.  A non-empty string is no object: the document is marked invalid.  The fields of
  an object are cast one by one, to String, to Date and to an array of documents with
  String fields.  A field is given by what its cast makes of it: not sent, sent with a
  value of the path's type, or sent with a value that the cast rejects (an object for a
  String path, text that is no date for the Date path, a string for an element of the
  array).  \<open>Summary_text c cs\<close> is the string of first character \<open>c\<close> and rest \<open>cs\<close>.
\<close>

datatype 'a sent = Not_sent | Sent 'a | Uncastable

record medication_input =
  mi_medicine :: "string sent"
  mi_dosage :: "string sent"
  mi_duration :: "string sent"

record summary_object =
  so_condition :: "string sent"
  so_instructions :: "string sent"
  so_followUpDate :: "int sent"
  so_medications :: "medication_input list sent"

datatype summary_input = No_summary | Summary_text char string | Summary_object summary_object

fun cast_path :: "'a sent \<Rightarrow> 'a option option" where
  "cast_path Not_sent = Some None"
| "cast_path (Sent v) = Some (Some v)"
| "cast_path Uncastable = None"

definition cast_medication :: "medication_input \<Rightarrow> discharge_medication option" where
  "cast_medication m =
     (case cast_path (mi_medicine m) of None \<Rightarrow> None | Some medicine \<Rightarrow>
      case cast_path (mi_dosage m) of None \<Rightarrow> None | Some dosage \<Rightarrow>
      case cast_path (mi_duration m) of None \<Rightarrow> None | Some duration \<Rightarrow>
        Some \<lparr>dm_medicine = medicine, dm_dosage = dosage, dm_duration = duration\<rparr>)"

fun cast_all :: "('a \<Rightarrow> 'b option) \<Rightarrow> 'a list \<Rightarrow> 'b list option" where
  "cast_all f [] = Some []"
| "cast_all f (x # xs) =
     (case f x of None \<Rightarrow> None
      | Some y \<Rightarrow> (case cast_all f xs of None \<Rightarrow> None | Some ys \<Rightarrow> Some (y # ys)))"

definition cast_medications :: "medication_input list sent \<Rightarrow> discharge_medication list option" where
  "cast_medications v =
     (case v of Not_sent \<Rightarrow> Some [] | Sent ms \<Rightarrow> cast_all cast_medication ms
      | Uncastable \<Rightarrow> None)"

definition cast_summary :: "summary_object \<Rightarrow> discharge_summary option" where
  "cast_summary obj =
     (case cast_path (so_condition obj) of None \<Rightarrow> None | Some condition \<Rightarrow>
      case cast_path (so_instructions obj) of None \<Rightarrow> None | Some instructions \<Rightarrow>
      case cast_path (so_followUpDate obj) of None \<Rightarrow> None | Some followUpDate \<Rightarrow>
      case cast_medications (so_medications obj) of None \<Rightarrow> None | Some medications \<Rightarrow>
        Some \<lparr>ds_condition = condition, ds_instructions = instructions,
              ds_followUpDate = followUpDate, ds_medications = medications\<rparr>)"

text \<open>
  The assignment of line 666; the result is \<open>None\<close> when it leaves the document invalid,
  so that \<open>save\<close> raises a validation error and writes nothing.
\<close>

definition set_dischargeSummary :: "summary_input \<Rightarrow> ipd_record \<Rightarrow> ipd_record option" where
  "set_dischargeSummary v r =
     (case v of
        No_summary \<Rightarrow> Some (r\<lparr>dischargeSummary := None\<rparr>)
      | Summary_text c cs \<Rightarrow> None
      | Summary_object obj \<Rightarrow>
          (case cast_summary obj of None \<Rightarrow> None
           | Some summary \<Rightarrow> Some (r\<lparr>dischargeSummary := Some summary\<rparr>)))"

text \<open>
  \<open>dischargePatient\<close>, lines 646-679; \<open>summary\<close> is \<open>req.body.dischargeSummary\<close>.  The
  record is saved before the bed is released: when the save raises, the handler ends with
  the error and neither the stay nor the bed is written.
\<close>

definition dischargePatient ::
  "int \<Rightarrow> oid \<Rightarrow> summary_input \<Rightarrow> store \<Rightarrow> error + store" where
  "dischargePatient now i summary st =
     (case findById i (ipdRecords st) of
        None \<Rightarrow> Inl (NotFound ''IPD record not found'')
      | Some record \<Rightarrow>
          if ipd_state record \<noteq> ADMITTED
          then Inl (BadRequest ''Patient is not currently admitted'')
          else
            let r1 = record\<lparr>ipd_state := DISCHARGED\<rparr>;
                r2 = r1\<lparr>dischargeDate := Some now\<rparr>
            in case set_dischargeSummary summary r2 of
                 None \<Rightarrow> Inl (ValidationError ''IPDRecord validation failed'')
               | Some r3 \<Rightarrow>
                   let st1 = st\<lparr>ipdRecords := put_doc i r3 (ipdRecords st)\<rparr>
                   in Inr (st1\<lparr>beds := findByIdAndUpdate (ipd_bedId r3) free_bed (beds st1)\<rparr>))"

text \<open>
  \<open>transferPatient\<close>, lines 767-811; \<open>user\<close> is the authenticated actor.  The note is
  built after the record's bed reference has been overwritten.
\<close>

definition transferPatient :: "oid \<Rightarrow> int \<Rightarrow> oid \<Rightarrow> oid \<Rightarrow> store \<Rightarrow> error + store" where
  "transferPatient user now i newBedId st =
     (case findById i (ipdRecords st) of
        None \<Rightarrow> Inl (NotFound ''IPD record not found'')
      | Some record \<Rightarrow>
          (case findById newBedId (beds st) of
             None \<Rightarrow> Inl (BadRequest ''New bed is not available'')
           | Some newBed \<Rightarrow>
               if bed_state newBed \<noteq> AVAILABLE
               then Inl (BadRequest ''New bed is not available'')
               else
                 let st1 = st\<lparr>beds := findByIdAndUpdate (ipd_bedId record) free_bed (beds st)\<rparr>;
                     newBed1 = newBed\<lparr>bed_state := OCCUPIED\<rparr>;
                     newBed2 = newBed1\<lparr>currentPatient := Some (ipd_patientId record)\<rparr>;
                     st2 = st1\<lparr>beds := put_doc newBedId newBed2 (beds st1)\<rparr>;
                     record1 = record\<lparr>ipd_bedId := newBedId\<rparr>;
                     record2 = record1\<lparr>treatmentNotes := treatmentNotes record1 @
                        [\<lparr>tn_date = now,
                          tn_note = ''Patient transferred from bed '' @ ipd_bedId record1 @
                                    '' to bed '' @ newBedId,
                          tn_addedBy = user\<rparr>]\<rparr>
                 in Inr (st2\<lparr>ipdRecords := put_doc i record2 (ipdRecords st2)\<rparr>)))"

subsection \<open>Appointment booking (controllers/appointmentController.js, createAppointment)\<close>

definition startOfDay :: "int \<Rightarrow> int" where
  "startOfDay t = t - t mod 86400000"

definition endOfDay :: "int \<Rightarrow> int" where
  "endOfDay t = startOfDay t + 86399999"

text \<open>The statuses that the booking check and the slot listing both select.\<close>

definition blocks_slot :: "appointment_status \<Rightarrow> bool" where
  "blocks_slot s = (s = SCHEDULED \<or> s = CONFIRMED)"








subsection \<open>Slot listing (controllers/patientController.js, lines 522-620)\<close>

text \<open>
  \<open>String.split(':')\<close> and \<open>Number\<close> on a string of decimal digits (the empty string is
  0).  A string that is not all digits gives \<open>None\<close>, the model's \<open>NaN\<close>; the other
  spellings that \<open>Number\<close> accepts (signs, fractions, exponents, blanks) are not time
  tokens and are outside the model.
\<close>

fun split_on :: "char \<Rightarrow> string \<Rightarrow> string list" where
  "split_on c [] = [[]]"
| "split_on c (x # xs) =
     (if x = c then [] # split_on c xs
      else (case split_on c xs of [] \<Rightarrow> [[x]] | y # ys \<Rightarrow> (x # y) # ys))"

fun index_of :: "'a \<Rightarrow> 'a list \<Rightarrow> nat option" where
  "index_of x [] = None"
| "index_of x (y # ys) = (if x = y then Some 0 else map_option Suc (index_of x ys))"

definition digit_val :: "char \<Rightarrow> nat option" where
  "digit_val c = index_of c ''0123456789''"

fun digits_value :: "string \<Rightarrow> nat \<Rightarrow> nat option" where
  "digits_value [] acc = Some acc"
| "digits_value (c # cs) acc =
     (case digit_val c of None \<Rightarrow> None | Some d \<Rightarrow> digits_value cs (10 * acc + d))"

definition js_Number :: "string \<Rightarrow> int option" where
  "js_Number s = map_option int (digits_value s 0)"

text \<open>\<open>parseTime\<close>: hours and minutes are the first two fields; a missing one is \<open>NaN\<close>.\<close>

definition parseTime :: "string \<Rightarrow> int option" where
  "parseTime timeStr =
     (case map js_Number (split_on CHR '':'' timeStr) of
        Some hours # Some minutes # rest \<Rightarrow> Some (hours * 60 + minutes)
      | _ \<Rightarrow> None)"

text \<open>
  \<open>formatTime\<close>: decimal rendering, \<open>padStart(2, '0')\<close>, JavaScript's \<open>Math.floor\<close> and
  its remainder \<open>%\<close>, whose sign is that of the dividend.
\<close>

fun show_nat :: "nat \<Rightarrow> string" where
  "show_nat n = (if n < 10 then [''0123456789'' ! n]
                 else show_nat (n div 10) @ [''0123456789'' ! (n mod 10)])"

declare show_nat.simps [simp del]

definition show_int :: "int \<Rightarrow> string" where
  "show_int k = (if k < 0 then CHR ''-'' # show_nat (nat (- k)) else show_nat (nat k))"

definition padStart2 :: "string \<Rightarrow> string" where
  "padStart2 s = replicate (2 - length s) CHR ''0'' @ s"

definition js_rem :: "int \<Rightarrow> int \<Rightarrow> int" where
  "js_rem a b = sgn a * (\<bar>a\<bar> mod \<bar>b\<bar>)"

definition formatTime :: "int \<Rightarrow> string" where
  "formatTime minutes =
     (let hours = minutes div 60; mins = js_rem minutes 60
      in padStart2 (show_int hours) @ '':'' @ padStart2 (show_int mins))"

text \<open>
  \<open>generateTimeSlots\<close>: the loop runs while \<open>current < end\<close>, so with a step that is
  not positive it does not return; \<open>None\<close> is that outcome.  A comparison with \<open>NaN\<close> is
  false, and the loop is not entered.
\<close>

partial_function (option) slots_loop :: "int \<Rightarrow> int \<Rightarrow> int \<Rightarrow> string list \<Rightarrow> string list option" where
  "slots_loop current end_t duration slots =
     (if current < end_t
      then slots_loop (current + duration) end_t duration (slots @ [formatTime current])
      else Some slots)"

declare slots_loop.simps [code]

definition generateTimeSlots :: "string \<Rightarrow> string \<Rightarrow> int \<Rightarrow> string list option" where
  "generateTimeSlots startTime endTime duration =
     (case (parseTime startTime, parseTime endTime) of
        (Some current, Some end_t) \<Rightarrow> slots_loop current end_t duration []
      | _ \<Rightarrow> Some [])"

text \<open>The weekday name of a date; day 0 of the timestamps is a Thursday.\<close>

definition dayName :: "int \<Rightarrow> string" where
  "dayName t = [''Thursday'', ''Friday'', ''Saturday'', ''Sunday'', ''Monday'', ''Tuesday'',
                ''Wednesday''] ! nat ((t div 86400000) mod 7)"

record slot =
  slot_time :: string
  slot_available :: bool

record slots_response =
  sr_available :: bool
  sr_message :: "string option"
  sr_day :: "string option"
  sr_slots :: "slot list"

definition bookedTimes :: "oid \<Rightarrow> int \<Rightarrow> store \<Rightarrow> string list" where
  "bookedTimes doctorId date st =
     map (\<lambda>(j, a). apt_time a)
       (filter (\<lambda>(j, a). apt_doctorId a = doctorId \<and> startOfDay date \<le> apt_date a \<and>
                          apt_date a \<le> endOfDay date \<and> blocks_slot (apt_state a))
          (appointments st))"

text \<open>
  \<open>getAvailableSlots\<close>; the outer \<open>option\<close> is \<open>None\<close> when the slot loop does not
  return.
\<close>

definition getAvailableSlots ::
  "oid \<Rightarrow> int option \<Rightarrow> store \<Rightarrow> (error + slots_response) option" where
  "getAvailableSlots doctorId date st =
     (case date of
        None \<Rightarrow> Some (Inl (BadRequest ''Please provide a date''))
      | Some d \<Rightarrow>
          (case findById doctorId (doctors st) of
             None \<Rightarrow> Some (Inl (NotFound ''Doctor not found''))
           | Some doctor \<Rightarrow>
               (case find (\<lambda>a. av_day a = dayName d) (availability doctor) of
                  None \<Rightarrow> Some (Inr \<lparr>sr_available = False,
                       sr_message = Some (''Doctor is not available on '' @ dayName d),
                       sr_day = None, sr_slots = []\<rparr>)
                | Some dayAvailability \<Rightarrow>
                    (case generateTimeSlots (av_startTime dayAvailability)
                            (av_endTime dayAvailability) (slotDuration doctor) of
                       None \<Rightarrow> None
                     | Some slots \<Rightarrow>
                         Some (Inr \<lparr>sr_available = True, sr_message = None,
                           sr_day = Some (dayName d),
                           sr_slots = map (\<lambda>s. \<lparr>slot_time = s,
                                slot_available = (s \<notin> set (bookedTimes doctorId d st))\<rparr>) slots\<rparr>)))))"

section \<open>Reference definitions and properties\<close>

subsection \<open>The invoice computation as the specification words it (section 4.2)\<close>

text \<open>
  Rule 7 of the specification, and its reference algorithm: each line total and the grand
  total are clamped at zero.  These two definitions follow the specification's text, not
  the code; they are what \<open>billing_pre_save\<close> is compared with.
\<close>

definition spec_status :: "rat \<Rightarrow> rat \<Rightarrow> payment_status" where
  "spec_status paid tot = (if paid \<le> 0 then PENDING else if paid \<ge> tot then PAID else PARTIAL)"

definition spec_line_total :: "service \<Rightarrow> rat" where
  "spec_line_total s = max 0 (svc_unitPrice s * svc_quantity s - svc_discount s)"

definition spec_recompute :: "billing \<Rightarrow> billing" where
  "spec_recompute b =
     (let lines = map (\<lambda>s. s\<lparr>svc_total := Some (spec_line_total s)\<rparr>) (services b);
          subtotal' = sum_list (map spec_line_total (services b));
          taxAmount = subtotal' * tax_percentage b / 100;
          discountAmount = (if discount_percentage b > 0
                            then subtotal' * discount_percentage b / 100 else discount_amount b);
          total' = max 0 (subtotal' + taxAmount - discountAmount);
          balance = total' - paidAmount b
      in b\<lparr>services := lines, subtotal := subtotal', tax_amount := taxAmount,
           discount_amount := discountAmount, totalAmount := total', balanceAmount := balance,
           paymentStatus := spec_status (paidAmount b) total'\<rparr>)"

text \<open>The invoice invariant as the specification states it.\<close>

definition spec_invoice_invariant :: "billing \<Rightarrow> bool" where
  "spec_invoice_invariant b =
     (balanceAmount b = totalAmount b - paidAmount b \<and>
      paymentStatus b = spec_status (paidAmount b) (totalAmount b))"

subsection \<open>Invoice properties of the code\<close>

text \<open>
  The relation that the save hook establishes: the balance is the total less the paid
  amount, and the status is decided by testing \<open>paid \<ge> total\<close> first.
\<close>

definition invoice_consistent :: "billing \<Rightarrow> bool" where
  "invoice_consistent b =
     (balanceAmount b = totalAmount b - paidAmount b \<and>
      paymentStatus b = (if paidAmount b \<ge> totalAmount b then PAID
                         else if paidAmount b > 0 then PARTIAL else PENDING))"

text \<open>The amount of a line item as the hook computes it.\<close>

definition line_amount :: "service \<Rightarrow> rat" where
  "line_amount s = svc_unitPrice s * svc_quantity s - svc_discount s"

text \<open>
  An update request that edits an invoice's inputs: it may set the line items, the
  subtotal, the tax and the discount, and sets none of total, paid amount, balance and
  status.
\<close>

definition edits_inputs :: "bill_patch \<Rightarrow> bool" where
  "edits_inputs p =
     (blp_totalAmount p = None \<and> blp_paidAmount p = None \<and> blp_balanceAmount p = None \<and>
      blp_paymentStatus p = None)"

text \<open>
  The stores reached from one without invoices by creating invoices, by editing their
  inputs through \<open>updateBill\<close> and by recording payments of a positive amount; any
  operation that leaves the invoices alone may come in between.  Each step is one
  completed request: the requests are handled one after another.
\<close>

inductive billing_reachable :: "store \<Rightarrow> bool" where
  no_bills: "bills st = [] \<Longrightarrow> billing_reachable st"
| created: "billing_reachable st \<Longrightarrow> createBill new_id req st = Inr st' \<Longrightarrow> billing_reachable st'"
| edited: "billing_reachable st \<Longrightarrow> edits_inputs body \<Longrightarrow>
           updateBill i body st = Inr st' \<Longrightarrow> billing_reachable st'"
| paid: "billing_reachable st \<Longrightarrow> 0 < pr_amount req \<Longrightarrow>
         addPayment user now i req st = Inr st' \<Longrightarrow> billing_reachable st'"
| other: "billing_reachable st \<Longrightarrow> bills st' = bills st \<Longrightarrow> billing_reachable st'"

subsection \<open>Example data\<close>

definition example_store :: store where
  "example_store = \<lparr>patients = [''P1''], doctors = [], beds = [], ipdRecords = [],
                     appointments = [], bills = []\<rparr>"

definition consultation :: service_input where
  "consultation = \<lparr>si_description = ''Consultation'', si_quantity = Some 1,
                    si_unitPrice = 500, si_discount = None\<rparr>"

text \<open>Scenario A of the specification: one consultation of 500 with 10 percent tax.\<close>

definition scenario_A :: bill_request where
  "scenario_A = \<lparr>br_patientId = ''P1'', br_services = [consultation],
                  br_tax_percentage = Some 10, br_discount_percentage = Some 0,
                  br_discount_amount = None\<rparr>"

definition scenario_A_bill :: billing where
  "scenario_A_bill =
     \<lparr>patientId = ''P1'',
      services = [\<lparr>svc_description = ''Consultation'', svc_quantity = 1, svc_unitPrice = 500,
                   svc_discount = 0, svc_total = Some 500\<rparr>],
      subtotal = 500, tax_percentage = 10, tax_amount = 50, discount_percentage = 0,
      discount_amount = 0, totalAmount = 550, paidAmount = 0, balanceAmount = 550,
      paymentStatus = PENDING, payments = []\<rparr>"

text \<open>Scenario B: the invoice of scenario A paid in full, in cash.\<close>

definition full_payment :: payment_request where
  "full_payment = \<lparr>pr_amount = 550, pr_method = Cash, pr_transactionId = None, pr_notes = None\<rparr>"

definition scenario_B_bill :: billing where
  "scenario_B_bill = scenario_A_bill
     \<lparr>paidAmount := 550, balanceAmount := 0, paymentStatus := PAID,
      payments := [\<lparr>pay_amount = 550, pay_method = Cash, pay_transactionId = None,
                    pay_date = 1000, pay_receivedBy = ''U1'', pay_notes = None\<rparr>]\<rparr>"

text \<open>The same consultation with a discount of 100 percent.\<close>

definition full_discount :: bill_request where
  "full_discount = \<lparr>br_patientId = ''P1'', br_services = [consultation],
                  br_tax_percentage = None, br_discount_percentage = Some 100,
                  br_discount_amount = None\<rparr>"

definition full_discount_bill :: billing where
  "full_discount_bill =
     \<lparr>patientId = ''P1'',
      services = [\<lparr>svc_description = ''Consultation'', svc_quantity = 1, svc_unitPrice = 500,
                   svc_discount = 0, svc_total = Some 500\<rparr>],
      subtotal = 500, tax_percentage = 0, tax_amount = 0, discount_percentage = 100,
      discount_amount = 500, totalAmount = 0, paidAmount = 0, balanceAmount = 0,
      paymentStatus = PAID, payments = []\<rparr>"

text \<open>An invoice whose only line carries a discount above its price.\<close>

definition over_discounted_bill :: billing where
  "over_discounted_bill =
     \<lparr>patientId = ''P1'',
      services = [\<lparr>svc_description = ''Dressing'', svc_quantity = 1, svc_unitPrice = 10,
                   svc_discount = 20, svc_total = None\<rparr>],
      subtotal = 0, tax_percentage = 0, tax_amount = 0, discount_percentage = 0,
      discount_amount = 0, totalAmount = 0, paidAmount = 0, balanceAmount = 0,
      paymentStatus = PENDING, payments = []\<rparr>"

definition zero_payment :: payment_request where
  "zero_payment = \<lparr>pr_amount = 0, pr_method = Cash, pr_transactionId = None, pr_notes = None\<rparr>"

text \<open>
  An update request that raises the tax of an invoice to 18 percent, the invoice of
  scenario A after it, and that invoice after a payment of 550.
\<close>

definition raise_tax :: bill_patch where
  "raise_tax = \<lparr>blp_services = None, blp_subtotal = None, blp_tax_percentage = Some 18,
       blp_tax_amount = None, blp_discount_percentage = None, blp_discount_amount = None,
       blp_totalAmount = None, blp_paidAmount = None, blp_balanceAmount = None,
       blp_paymentStatus = None\<rparr>"

definition edited_bill :: billing where
  "edited_bill = scenario_A_bill\<lparr>tax_percentage := 18\<rparr>"

definition edited_paid_bill :: billing where
  "edited_paid_bill = scenario_A_bill
     \<lparr>tax_percentage := 18, tax_amount := 90, totalAmount := 590, paidAmount := 550,
      balanceAmount := 40, paymentStatus := PARTIAL,
      payments := [\<lparr>pay_amount = 550, pay_method = Cash, pay_transactionId = None,
                    pay_date = 1000, pay_receivedBy = ''U1'', pay_notes = None\<rparr>]\<rparr>"

text \<open>An update request that sets the total of an invoice and nothing else.\<close>

definition overwrite_total :: bill_patch where
  "overwrite_total = \<lparr>blp_services = None, blp_subtotal = None, blp_tax_percentage = None,
       blp_tax_amount = None, blp_discount_percentage = None, blp_discount_amount = None,
       blp_totalAmount = Some 100, blp_paidAmount = None, blp_balanceAmount = None,
       blp_paymentStatus = None\<rparr>"


subsection \<open>Bed and stay invariants\<close>

text \<open>
  The bed invariant of the specification (a bed is OCCUPIED exactly when it has an
  occupant) and the coupling of stays and beds (the bed of an ADMITTED stay is OCCUPIED
  by the stay's patient), over all documents of the store.
\<close>

definition bed_occupancy_ok :: "store \<Rightarrow> bool" where
  "bed_occupancy_ok st =
     list_all (\<lambda>(i, b). (bed_state b = OCCUPIED) = (currentPatient b \<noteq> None)) (beds st)"

definition admitted_stays_ok :: "store \<Rightarrow> bool" where
  "admitted_stays_ok st =
     list_all (\<lambda>(j, r). ipd_state r \<noteq> ADMITTED \<or>
         (case findById (ipd_bedId r) (beds st) of
            None \<Rightarrow> False
          | Some b \<Rightarrow> bed_state b = OCCUPIED \<and> currentPatient b = Some (ipd_patientId r)))
       (ipdRecords st)"

text \<open>Whether a patient has a stay in ADMITTED state.\<close>

definition has_admitted_stay :: "oid \<Rightarrow> store \<Rightarrow> bool" where
  "has_admitted_stay p st =
     list_ex (\<lambda>(j, r). ipd_patientId r = p \<and> ipd_state r = ADMITTED) (ipdRecords st)"

text \<open>
  An update request keeps the occupancy of a bed when it moves the bed neither into nor
  out of OCCUPIED and leaves the occupant as it is.
\<close>

definition keeps_occupancy :: "bed_patch \<Rightarrow> bed \<Rightarrow> bool" where
  "keeps_occupancy p b =
     ((bed_state (apply_bed_patch p b) = OCCUPIED) = (bed_state b = OCCUPIED) \<and>
      currentPatient (apply_bed_patch p b) = currentPatient b)"

text \<open>
  The stores reached from one without beds and stays by: creating a bed that is not
  OCCUPIED and has no occupant, updating a bed with a request that keeps its occupancy,
  deleting a bed, marking a bed for maintenance, admitting, discharging, and transferring
  a stay that is ADMITTED.  Generated identifiers are fresh; any operation that leaves
  beds and stays alone may come in between.  Each step is one completed request: the
  requests are handled one after another.
\<close>

inductive ward_reachable :: "store \<Rightarrow> bool" where
  no_beds: "beds st = [] \<Longrightarrow> ipdRecords st = [] \<Longrightarrow> ward_reachable st"
| bed_created: "ward_reachable st \<Longrightarrow> bi_status body \<noteq> Some OCCUPIED \<Longrightarrow>
     bi_currentPatient body = None \<Longrightarrow> findById new_id (beds st) = None \<Longrightarrow>
     createBed new_id body st = Inr st' \<Longrightarrow> ward_reachable st'"
| bed_updated: "ward_reachable st \<Longrightarrow> findById i (beds st) = Some b \<Longrightarrow>
     keeps_occupancy body b \<Longrightarrow> updateBed i body st = Inr st' \<Longrightarrow> ward_reachable st'"
| bed_deleted: "ward_reachable st \<Longrightarrow> deleteBed i st = Inr st' \<Longrightarrow> ward_reachable st'"
| maintenance: "ward_reachable st \<Longrightarrow> markMaintenance i notes st = Inr st' \<Longrightarrow>
     ward_reachable st'"
| admitted: "ward_reachable st \<Longrightarrow> findById new_id (ipdRecords st) = None \<Longrightarrow>
     admitPatient new_id now req st = Inr st' \<Longrightarrow> ward_reachable st'"
| discharged: "ward_reachable st \<Longrightarrow> dischargePatient now i summary st = Inr st' \<Longrightarrow>
     ward_reachable st'"
| transferred: "ward_reachable st \<Longrightarrow> findById i (ipdRecords st) = Some r \<Longrightarrow>
     ipd_state r = ADMITTED \<Longrightarrow> transferPatient user now i newBedId st = Inr st' \<Longrightarrow>
     ward_reachable st'"
| unrelated: "ward_reachable st \<Longrightarrow> beds st' = beds st \<Longrightarrow>
     ipdRecords st' = ipdRecords st \<Longrightarrow> ward_reachable st'"

text \<open>
  The invariant that the proof carries: identifiers are unique, the two properties above
  hold of every document found by its identifier, and no patient has two ADMITTED stays.
\<close>

definition ward_inv :: "store \<Rightarrow> bool" where
  "ward_inv st =
     (distinct (map fst (beds st)) \<and> distinct (map fst (ipdRecords st)) \<and>
      (\<forall>i b. findById i (beds st) = Some b \<longrightarrow>
         (bed_state b = OCCUPIED) = (currentPatient b \<noteq> None)) \<and>
      (\<forall>j r. findById j (ipdRecords st) = Some r \<longrightarrow> ipd_state r = ADMITTED \<longrightarrow>
         (\<exists>b. findById (ipd_bedId r) (beds st) = Some b \<and> bed_state b = OCCUPIED \<and>
              currentPatient b = Some (ipd_patientId r))) \<and>
      (\<forall>j r j' r'. findById j (ipdRecords st) = Some r \<longrightarrow>
         findById j' (ipdRecords st) = Some r' \<longrightarrow> ipd_state r = ADMITTED \<longrightarrow>
         ipd_state r' = ADMITTED \<longrightarrow> ipd_patientId r = ipd_patientId r' \<longrightarrow> j = j'))"

text \<open>The stay that \<open>admitPatient\<close> creates, and the note that \<open>transferPatient\<close> appends.\<close>

definition new_stay :: "int \<Rightarrow> admit_request \<Rightarrow> oid \<Rightarrow> ipd_record" where
  "new_stay now req doctorId =
     \<lparr>ipd_patientId = ar_patientId req, ipd_doctorId = doctorId,
      ipd_bedId = ar_bedId req, admissionDate = now, dischargeDate = None,
      admissionReason = ar_admissionReason req, diagnosis = ar_diagnosis req,
      ipd_state = ADMITTED, treatmentNotes = [], dischargeSummary = None\<rparr>"

definition transfer_note :: "oid \<Rightarrow> int \<Rightarrow> oid \<Rightarrow> treatment_note" where
  "transfer_note user now newBedId =
     \<lparr>tn_date = now,
      tn_note = ''Patient transferred from bed '' @ newBedId @ '' to bed '' @ newBedId,
      tn_addedBy = user\<rparr>"

subsection \<open>Example data: one bed, one patient\<close>

definition bed_B1_input :: bed_input where
  "bed_B1_input = \<lparr>bi_bedNumber = ''B-1'', bi_ward = ''General'', bi_status = None,
                    bi_currentPatient = None, bi_dailyRate = 1000, bi_notes = None\<rparr>"

definition bed_B1 :: bed where
  "bed_B1 = \<lparr>bedNumber = ''B-1'', ward = ''General'', bed_state = AVAILABLE,
              currentPatient = None, dailyRate = 1000, bed_notes = None\<rparr>"

definition store_with_bed :: store where
  "store_with_bed = example_store\<lparr>beds := [(''BED1'', bed_B1)]\<rparr>"

text \<open>Scenario C: patient P1 is admitted to bed B-1 under doctor D1.\<close>

definition admit_P1 :: admit_request where
  "admit_P1 = \<lparr>ar_patientId = ''P1'', ar_doctorId = Some ''D1'', ar_bedId = ''BED1'',
                ar_admissionReason = ''Fever'', ar_diagnosis = None\<rparr>"

definition stay_S1 :: ipd_record where
  "stay_S1 = \<lparr>ipd_patientId = ''P1'', ipd_doctorId = ''D1'', ipd_bedId = ''BED1'',
               admissionDate = 1000, dischargeDate = None, admissionReason = ''Fever'',
               diagnosis = None, ipd_state = ADMITTED, treatmentNotes = [],
               dischargeSummary = None\<rparr>"

definition store_admitted :: store where
  "store_admitted = example_store
     \<lparr>beds := [(''BED1'', bed_B1\<lparr>bed_state := OCCUPIED, currentPatient := Some ''P1''\<rparr>)],
      ipdRecords := [(''S1'', stay_S1)]\<rparr>"

text \<open>A second patient asks for the same bed.\<close>

definition admit_P2 :: admit_request where
  "admit_P2 = \<lparr>ar_patientId = ''P2'', ar_doctorId = Some ''D1'', ar_bedId = ''BED1'',
                ar_admissionReason = ''Fracture'', ar_diagnosis = None\<rparr>"

text \<open>
  Discharge summaries: the text that the discharge form sends (pages/ipd/IPDRecords.jsx,
  lines 508-516: a required textarea), a summary sent as an object, what is stored for
  it, and an object whose follow-up date is no date.
\<close>

definition text_summary :: summary_input where
  "text_summary = Summary_text CHR ''R'' ''ecovered''"

definition object_summary :: summary_input where
  "object_summary = Summary_object
     \<lparr>so_condition = Sent ''Recovered'', so_instructions = Sent ''Rest for a week'',
      so_followUpDate = Sent 5000, so_medications = Not_sent\<rparr>"

definition recorded_summary :: discharge_summary where
  "recorded_summary =
     \<lparr>ds_condition = Some ''Recovered'', ds_instructions = Some ''Rest for a week'',
      ds_followUpDate = Some 5000, ds_medications = []\<rparr>"

definition bad_date_summary :: summary_input where
  "bad_date_summary = Summary_object
     \<lparr>so_condition = Sent ''Recovered'', so_instructions = Not_sent,
      so_followUpDate = Uncastable, so_medications = Not_sent\<rparr>"

text \<open>Scenario D: the stay is discharged.\<close>

definition store_discharged :: store where
  "store_discharged = example_store
     \<lparr>beds := [(''BED1'', bed_B1)],
      ipdRecords := [(''S1'', stay_S1\<lparr>ipd_state := DISCHARGED, dischargeDate := Some 2000\<rparr>)]\<rparr>"

text \<open>The discharged stay after a transfer to the bed it already names.\<close>

definition store_retransferred :: store where
  "store_retransferred = example_store
     \<lparr>beds := [(''BED1'', bed_B1\<lparr>bed_state := OCCUPIED, currentPatient := Some ''P1''\<rparr>)],
      ipdRecords := [(''S1'', stay_S1\<lparr>ipd_state := DISCHARGED, dischargeDate := Some 2000,
         treatmentNotes := [\<lparr>tn_date = 3000,
            tn_note = ''Patient transferred from bed BED1 to bed BED1'',
            tn_addedBy = ''U1''\<rparr>]\<rparr>)]\<rparr>"

text \<open>A second, free bed, and the admitted stay after its transfer there.\<close>

definition bed_B2 :: bed where
  "bed_B2 = \<lparr>bedNumber = ''B-2'', ward = ''General'', bed_state = AVAILABLE,
              currentPatient = None, dailyRate = 1200, bed_notes = None\<rparr>"

definition store_two_beds :: store where
  "store_two_beds = store_admitted
     \<lparr>beds := [(''BED1'', bed_B1\<lparr>bed_state := OCCUPIED, currentPatient := Some ''P1''\<rparr>),
               (''BED2'', bed_B2)]\<rparr>"

text \<open>An update request that sets the status of a bed to OCCUPIED and nothing else.\<close>

definition force_occupied :: bed_patch where
  "force_occupied = \<lparr>bdp_bedNumber = None, bdp_ward = None, bdp_status = Some OCCUPIED,
                      bdp_currentPatient = None, bdp_dailyRate = None, bdp_notes = None\<rparr>"

definition store_forced :: store where
  "store_forced = example_store\<lparr>beds := [(''BED1'', bed_B1\<lparr>bed_state := OCCUPIED\<rparr>)]\<rparr>"

text \<open>The bed under maintenance, and marked again with a note.\<close>

definition store_maintenance :: store where
  "store_maintenance = example_store
     \<lparr>beds := [(''BED1'', bed_B1\<lparr>bed_state := MAINTENANCE,
                                 bed_notes := Some ''Under maintenance''\<rparr>)]\<rparr>"

definition store_maintenance_again :: store where
  "store_maintenance_again = example_store
     \<lparr>beds := [(''BED1'', bed_B1\<lparr>bed_state := MAINTENANCE, bed_notes := Some ''Repainting''\<rparr>)]\<rparr>"

definition store_transferred :: store where
  "store_transferred = store_admitted
     \<lparr>beds := [(''BED1'', bed_B1),
               (''BED2'', bed_B2\<lparr>bed_state := OCCUPIED, currentPatient := Some ''P1''\<rparr>)],
      ipdRecords := [(''S1'', stay_S1\<lparr>ipd_bedId := ''BED2'',
         treatmentNotes := [\<lparr>tn_date = 3000,
            tn_note = ''Patient transferred from bed BED2 to bed BED2'',
            tn_addedBy = ''U1''\<rparr>]\<rparr>)]\<rparr>"

text \<open>
  The first stay discharged and its bed B-1 given to a second patient; then the
  discharged stay transferred to bed B-2.
\<close>

definition stay_S2 :: ipd_record where
  "stay_S2 = \<lparr>ipd_patientId = ''P2'', ipd_doctorId = ''D1'', ipd_bedId = ''BED1'',
               admissionDate = 2500, dischargeDate = None, admissionReason = ''Fracture'',
               diagnosis = None, ipd_state = ADMITTED, treatmentNotes = [],
               dischargeSummary = None\<rparr>"

definition store_bed_reused :: store where
  "store_bed_reused = example_store
     \<lparr>patients := [''P1'', ''P2''],
      beds := [(''BED1'', bed_B1\<lparr>bed_state := OCCUPIED, currentPatient := Some ''P2''\<rparr>),
               (''BED2'', bed_B2)],
      ipdRecords := [(''S1'', stay_S1\<lparr>ipd_state := DISCHARGED, dischargeDate := Some 2000\<rparr>),
                     (''S2'', stay_S2)]\<rparr>"

definition store_bed_lost :: store where
  "store_bed_lost = example_store
     \<lparr>patients := [''P1'', ''P2''],
      beds := [(''BED1'', bed_B1),
               (''BED2'', bed_B2\<lparr>bed_state := OCCUPIED, currentPatient := Some ''P1''\<rparr>)],
      ipdRecords := [(''S1'', stay_S1\<lparr>ipd_state := DISCHARGED, dischargeDate := Some 2000,
                        ipd_bedId := ''BED2'',
                        treatmentNotes := [\<lparr>tn_date = 3000,
                           tn_note = ''Patient transferred from bed BED2 to bed BED2'',
                           tn_addedBy = ''U1''\<rparr>]\<rparr>),
                     (''S2'', stay_S2)]\<rparr>"

subsection \<open>Bookings of a slot\<close>

text \<open>Two timestamps on the same calendar day.\<close>

definition same_day :: "int \<Rightarrow> int \<Rightarrow> bool" where
  "same_day t u = (t div 86400000 = u div 86400000)"

text \<open>
  The appointments of a doctor on the day of a date with a time token, in a status that
  the code counts as a booking (SCHEDULED or CONFIRMED); a slot is taken when there is one.
\<close>

definition bookings_of :: "oid \<Rightarrow> int \<Rightarrow> string \<Rightarrow> store \<Rightarrow> (oid \<times> appointment) list" where
  "bookings_of d date time st =
     filter (\<lambda>(j, a). apt_doctorId a = d \<and> same_day (apt_date a) date \<and> apt_time a = time \<and>
                        blocks_slot (apt_state a)) (appointments st)"

definition slot_taken :: "oid \<Rightarrow> int \<Rightarrow> string \<Rightarrow> store \<Rightarrow> bool" where
  "slot_taken d date time st = (bookings_of d date time st \<noteq> [])"


text \<open>
  The same in the specification's words: the appointments of the triple that are not
  cancelled.
\<close>

definition spec_occupants :: "oid \<Rightarrow> int \<Rightarrow> string \<Rightarrow> store \<Rightarrow> (oid \<times> appointment) list" where
  "spec_occupants d date time st =
     filter (\<lambda>(j, a). apt_doctorId a = d \<and> same_day (apt_date a) date \<and> apt_time a = time \<and>
                        apt_state a \<noteq> CANCELLED) (appointments st)"


text \<open>The number of steps of length \<open>dur\<close> that start at \<open>s\<close> and lie before \<open>e\<close>.\<close>

definition slot_count :: "int \<Rightarrow> int \<Rightarrow> int \<Rightarrow> nat" where
  "slot_count s e dur = nat ((e - s + dur - 1) div dur)"

subsection \<open>Example data: one doctor with a Monday window\<close>

text \<open>Scenario E: doctor D1 is available on Mondays from 09:00 to 10:00 in slots of 30 minutes.\<close>

definition doctor_D1 :: doctor where
  "doctor_D1 = \<lparr>availability = [\<lparr>av_day = ''Monday'', av_startTime = ''09:00'',
                                  av_endTime = ''10:00''\<rparr>],
                 slotDuration = 30, consultationFee = 300\<rparr>"

definition clinic :: store where
  "clinic = example_store\<lparr>doctors := [(''D1'', doctor_D1)]\<rparr>"

text \<open>Monday 6 January 2025, 00:00, as a timestamp, and the Tuesday after it.\<close>

definition monday :: int where
  "monday = 1736121600000"

definition tuesday :: int where
  "tuesday = 1736208000000"


definition appointment_A1 :: appointment where
  "appointment_A1 = \<lparr>apt_patientId = ''P1'', apt_doctorId = ''D1'', apt_date = monday,
                      apt_time = ''09:00'', apt_type = Consultation, apt_state = SCHEDULED,
                      apt_symptoms = None, apt_notes = None, apt_fee = 300,
                      apt_cancelReason = None, apt_cancelledBy = None\<rparr>"

definition clinic_booked :: store where
  "clinic_booked = clinic\<lparr>appointments := [(''A1'', appointment_A1)]\<rparr>"

text \<open>The same appointment after the consultation has taken place, and a second booking.\<close>

definition clinic_completed :: store where
  "clinic_completed = clinic\<lparr>appointments := [(''A1'', appointment_A1\<lparr>apt_state := COMPLETED\<rparr>)]\<rparr>"







section \<open>Verified properties\<close>

subsection \<open>The document store\<close>

lemma findById_put_doc:
  "findById j (put_doc i d xs) = (if j = i then Some d else findById j xs)"
  by (simp add: findById_def put_doc_def update_conv')

lemma findById_findByIdAndUpdate:
  "findById j (findByIdAndUpdate i f xs) =
     (if j = i then map_option f (findById i xs) else findById j xs)"
  by (simp add: findById_def findByIdAndUpdate_def map_of_map_entry split: option.splits)

lemma findById_deleteOne:
  "findById j (deleteOne i xs) = (if j = i then None else findById j xs)"
  by (simp add: findById_def deleteOne_def delete_conv')

subsection \<open>The save hook, one assignment at a time\<close>

lemma foldl_line_amounts:
  "foldl (\<lambda>sum s. sum + total_or_zero s) a (map service_set_total xs) =
   a + sum_list (map line_amount xs)"
  by (induction xs arbitrary: a)
     (simp_all add: total_or_zero_def service_set_total_def line_amount_def)

lemma set_service_totals_sel [simp]:
  "services (set_service_totals b) = map service_set_total (services b)"
  "tax_percentage (set_service_totals b) = tax_percentage b"
  "discount_percentage (set_service_totals b) = discount_percentage b"
  "discount_amount (set_service_totals b) = discount_amount b"
  "paidAmount (set_service_totals b) = paidAmount b"
  "paymentStatus (set_service_totals b) = paymentStatus b"
  by (simp_all add: set_service_totals_def)

lemma set_subtotal_sel [simp]:
  "services (set_subtotal b) = services b"
  "subtotal (set_subtotal b) = foldl (\<lambda>sum s. sum + total_or_zero s) 0 (services b)"
  "tax_percentage (set_subtotal b) = tax_percentage b"
  "discount_percentage (set_subtotal b) = discount_percentage b"
  "discount_amount (set_subtotal b) = discount_amount b"
  "paidAmount (set_subtotal b) = paidAmount b"
  "paymentStatus (set_subtotal b) = paymentStatus b"
  by (simp_all add: set_subtotal_def)

lemma set_tax_amount_sel [simp]:
  "services (set_tax_amount b) = services b"
  "subtotal (set_tax_amount b) = subtotal b"
  "tax_amount (set_tax_amount b) = (subtotal b * tax_percentage b) / 100"
  "discount_percentage (set_tax_amount b) = discount_percentage b"
  "discount_amount (set_tax_amount b) = discount_amount b"
  "paidAmount (set_tax_amount b) = paidAmount b"
  "paymentStatus (set_tax_amount b) = paymentStatus b"
  by (simp_all add: set_tax_amount_def)

lemma set_discount_amount_sel [simp]:
  "services (set_discount_amount b) = services b"
  "subtotal (set_discount_amount b) = subtotal b"
  "tax_amount (set_discount_amount b) = tax_amount b"
  "discount_amount (set_discount_amount b) =
     (if discount_percentage b > 0 then (subtotal b * discount_percentage b) / 100
      else discount_amount b)"
  "paidAmount (set_discount_amount b) = paidAmount b"
  "paymentStatus (set_discount_amount b) = paymentStatus b"
  by (simp_all add: set_discount_amount_def)

lemma set_total_sel [simp]:
  "services (set_total b) = services b"
  "subtotal (set_total b) = subtotal b"
  "tax_amount (set_total b) = tax_amount b"
  "discount_amount (set_total b) = discount_amount b"
  "totalAmount (set_total b) = subtotal b + tax_amount b - discount_amount b"
  "paidAmount (set_total b) = paidAmount b"
  "paymentStatus (set_total b) = paymentStatus b"
  by (simp_all add: set_total_def)

lemma set_balance_sel [simp]:
  "services (set_balance b) = services b"
  "subtotal (set_balance b) = subtotal b"
  "tax_amount (set_balance b) = tax_amount b"
  "discount_amount (set_balance b) = discount_amount b"
  "totalAmount (set_balance b) = totalAmount b"
  "balanceAmount (set_balance b) = totalAmount b - paidAmount b"
  "paidAmount (set_balance b) = paidAmount b"
  "paymentStatus (set_balance b) = paymentStatus b"
  "payments (set_balance b) = payments b"
  by (simp_all add: set_balance_def)

lemma set_payment_status_sel [simp]:
  "services (set_payment_status b) = services b"
  "subtotal (set_payment_status b) = subtotal b"
  "tax_amount (set_payment_status b) = tax_amount b"
  "discount_amount (set_payment_status b) = discount_amount b"
  "totalAmount (set_payment_status b) = totalAmount b"
  "balanceAmount (set_payment_status b) = balanceAmount b"
  "paidAmount (set_payment_status b) = paidAmount b"
  "paymentStatus (set_payment_status b) =
     (if paidAmount b \<ge> totalAmount b then PAID
      else if paidAmount b > 0 then PARTIAL else paymentStatus b)"
  by (simp_all add: set_payment_status_def)

lemma pre_save_services: "services (billing_pre_save b) = map service_set_total (services b)"
  by (simp add: billing_pre_save_def)

lemma pre_save_subtotal:
  "subtotal (billing_pre_save b) = sum_list (map line_amount (services b))"
  by (simp add: billing_pre_save_def foldl_line_amounts)

lemma pre_save_tax:
  "tax_amount (billing_pre_save b) = subtotal (billing_pre_save b) * tax_percentage b / 100"
  by (simp add: billing_pre_save_def)

lemma pre_save_discount:
  "discount_amount (billing_pre_save b) =
     (if discount_percentage b > 0
      then subtotal (billing_pre_save b) * discount_percentage b / 100
      else discount_amount b)"
  by (simp add: billing_pre_save_def)

lemma pre_save_total:
  "totalAmount (billing_pre_save b) =
     subtotal (billing_pre_save b) + tax_amount (billing_pre_save b) -
     discount_amount (billing_pre_save b)"
  by (simp add: billing_pre_save_def)

lemma pre_save_balance:
  "balanceAmount (billing_pre_save b) =
     totalAmount (billing_pre_save b) - paidAmount (billing_pre_save b)"
  by (simp add: billing_pre_save_def)

lemma pre_save_paid: "paidAmount (billing_pre_save b) = paidAmount b"
  by (simp add: billing_pre_save_def)

lemma pre_save_status:
  "paymentStatus (billing_pre_save b) =
     (if paidAmount b \<ge> totalAmount (billing_pre_save b) then PAID
      else if paidAmount b > 0 then PARTIAL else paymentStatus b)"
  by (simp add: billing_pre_save_def)

lemma pre_save_consistent:
  "0 < paidAmount b \<or> paymentStatus b = PENDING \<Longrightarrow> invoice_consistent (billing_pre_save b)"
  unfolding invoice_consistent_def pre_save_status pre_save_balance pre_save_paid by auto

subsection \<open>What a successful billing operation wrote\<close>

lemma save_bill_Inr:
  "save_bill i b st = Inr st' \<longleftrightarrow>
     billing_valid b \<and> st' = st\<lparr>bills := put_doc i (billing_pre_save b) (bills st)\<rparr>"
  by (auto simp add: save_bill_def)

lemma createBill_Inr:
  assumes "createBill new_id req st = Inr st'"
  shows "\<exists>d. paidAmount d = 0 \<and> paymentStatus d = PENDING \<and>
             st' = st\<lparr>bills := put_doc new_id (billing_pre_save d) (bills st)\<rparr>"
proof -
  from assms obtain d where d: "save_bill new_id d st = Inr st'" "paidAmount d = 0"
      "paymentStatus d = PENDING"
    unfolding createBill_def Let_def by (auto split: if_splits)
  then show ?thesis unfolding save_bill_Inr by blast
qed

lemma payment_steps_paid [simp]:
  "paidAmount (set_status_from_balance b) = paidAmount b"
  "paidAmount (add_paid a b) = paidAmount b + a"
  "paidAmount (push_payment user now req b) = paidAmount b"
  by (simp_all add: set_status_from_balance_def add_paid_def push_payment_def)

lemma addPayment_Inr:
  assumes "addPayment user now i req st = Inr st'"
  shows "\<exists>b0 d. findById i (bills st) = Some b0 \<and> paymentStatus b0 \<noteq> PAID \<and>
           pr_amount req \<le> balanceAmount b0 \<and>
           paidAmount d = paidAmount b0 + pr_amount req \<and>
           st' = st\<lparr>bills := put_doc i (billing_pre_save d) (bills st)\<rparr>"
proof -
  from assms obtain b0 where b0: "findById i (bills st) = Some b0"
    unfolding addPayment_def by (auto split: option.splits)
  let ?d = "set_status_from_balance (set_balance (add_paid (pr_amount req)
              (push_payment user now req b0)))"
  from assms b0 have g: "paymentStatus b0 \<noteq> PAID" "pr_amount req \<le> balanceAmount b0"
    and s: "save_bill i ?d st = Inr st'"
    unfolding addPayment_def by (auto split: if_splits)
  have "paidAmount ?d = paidAmount b0 + pr_amount req" by simp
  with b0 g s show ?thesis unfolding save_bill_Inr by blast
qed

lemma updateBill_Inr:
  assumes "updateBill i body st = Inr st'"
  shows "st' = st\<lparr>bills := findByIdAndUpdate i (apply_bill_patch body) (bills st)\<rparr>"
  using assms unfolding updateBill_def by (auto split: option.splits if_splits)

lemma apply_bill_patch_inputs:
  assumes "edits_inputs body"
  shows "totalAmount (apply_bill_patch body b) = totalAmount b"
    and "paidAmount (apply_bill_patch body b) = paidAmount b"
    and "balanceAmount (apply_bill_patch body b) = balanceAmount b"
    and "paymentStatus (apply_bill_patch body b) = paymentStatus b"
  using assms by (simp_all add: edits_inputs_def apply_bill_patch_def schema_default_def)

lemma edit_keeps_consistent:
  assumes "edits_inputs body" and "invoice_consistent b \<and> 0 \<le> paidAmount b"
  shows "invoice_consistent (apply_bill_patch body b) \<and> 0 \<le> paidAmount (apply_bill_patch body b)"
  using assms(2) unfolding invoice_consistent_def apply_bill_patch_inputs[OF assms(1)] .

lemma reachable_bills:
  "billing_reachable st \<Longrightarrow> findById i (bills st) = Some b \<Longrightarrow>
     invoice_consistent b \<and> 0 \<le> paidAmount b"
proof (induction arbitrary: i b rule: billing_reachable.induct)
  case (no_bills st)
  then show ?case by (simp add: findById_def)
next
  case (edited st body j st')
  note st' = updateBill_Inr[OF edited.hyps(3)]
  show ?case
  proof (cases "i = j")
    case True
    with edited.prems st' obtain b0 where
      b0: "findById j (bills st) = Some b0" "b = apply_bill_patch body b0"
      by (auto simp add: findById_findByIdAndUpdate split: option.splits)
    from edit_keeps_consistent[OF edited.hyps(2) edited.IH[OF b0(1)]] b0(2)
    show ?thesis by simp
  next
    case False
    with edited.prems st' have "findById i (bills st) = Some b"
      by (simp add: findById_findByIdAndUpdate)
    then show ?thesis by (rule edited.IH)
  qed
next
  case (created st new_id req st')
  from createBill_Inr[OF created.hyps(2)] obtain d where
    d: "paidAmount d = 0" "paymentStatus d = PENDING"
       "st' = st\<lparr>bills := put_doc new_id (billing_pre_save d) (bills st)\<rparr>" by blast
  show ?case
  proof (cases "i = new_id")
    case True
    with created.prems d have "b = billing_pre_save d" by (simp add: findById_put_doc)
    with d show ?thesis by (simp add: pre_save_consistent pre_save_paid)
  next
    case False
    with created.prems d have "findById i (bills st) = Some b" by (simp add: findById_put_doc)
    then show ?thesis by (rule created.IH)
  qed
next
  case (paid st req user now j st')
  from addPayment_Inr[OF paid.hyps(3)] obtain b0 d where
    d: "findById j (bills st) = Some b0" "paidAmount d = paidAmount b0 + pr_amount req"
       "st' = st\<lparr>bills := put_doc j (billing_pre_save d) (bills st)\<rparr>" by blast
  from paid.IH[OF d(1)] have "0 \<le> paidAmount b0" by simp
  with d(2) paid.hyps(2) have pos: "0 < paidAmount d" by simp
  show ?case
  proof (cases "i = j")
    case True
    with paid.prems d have "b = billing_pre_save d" by (simp add: findById_put_doc)
    with pos show ?thesis by (simp add: pre_save_consistent pre_save_paid)
  next
    case False
    with paid.prems d have "findById i (bills st) = Some b" by (simp add: findById_put_doc)
    then show ?thesis by (rule paid.IH)
  qed
next
  case (other st st')
  then show ?case by simp
qed

lemma scenario_A_created:
  "createBill ''B1'' scenario_A example_store =
     Inr (example_store\<lparr>bills := [(''B1'', scenario_A_bill)]\<rparr>)"
  by code_simp

lemma scenario_B_paid:
  "addPayment ''U1'' 1000 ''B1'' full_payment (example_store\<lparr>bills := [(''B1'', scenario_A_bill)]\<rparr>) =
     Inr (example_store\<lparr>bills := [(''B1'', scenario_B_bill)]\<rparr>)"
  by code_simp

lemma scenario_A_edited:
  "updateBill ''B1'' raise_tax (example_store\<lparr>bills := [(''B1'', scenario_A_bill)]\<rparr>) =
     Inr (example_store\<lparr>bills := [(''B1'', edited_bill)]\<rparr>)"
  by code_simp

lemma edited_bill_paid:
  "addPayment ''U1'' 1000 ''B1'' full_payment (example_store\<lparr>bills := [(''B1'', edited_bill)]\<rparr>) =
     Inr (example_store\<lparr>bills := [(''B1'', edited_paid_bill)]\<rparr>)"
  by code_simp

text \<open>
  An update request that sets a derived field is stored as sent, with no recompute: the
  total of the invoice of scenario A becomes 100 and its balance stays 550.
\<close>

lemma updateBill_sets_total:
  "updateBill ''B1'' overwrite_total (example_store\<lparr>bills := [(''B1'', scenario_A_bill)]\<rparr>) =
     Inr (example_store\<lparr>bills := [(''B1'', scenario_A_bill\<lparr>totalAmount := 100\<rparr>)]\<rparr>) \<and>
   balanceAmount (scenario_A_bill\<lparr>totalAmount := 100\<rparr>) = 550"
  by code_simp

subsection \<open>Claim C1: the invoice invariant\<close>

text \<open>
  C1 as stated fails.  An invoice created with a discount of 100 percent has nothing paid
  and a total of zero; the hook tests \<open>paid \<ge> total\<close> first and stores the status PAID,
  where rule 7 of the specification gives PENDING.
\<close>

theorem C1_counterexample:
  "createBill ''B2'' full_discount example_store =
     Inr (example_store\<lparr>bills := [(''B2'', full_discount_bill)]\<rparr>) \<and>
   balanceAmount full_discount_bill = totalAmount full_discount_bill - paidAmount full_discount_bill \<and>
   paidAmount full_discount_bill = 0 \<and>
   paymentStatus full_discount_bill = PAID \<and>
   spec_status (paidAmount full_discount_bill) (totalAmount full_discount_bill) = PENDING \<and>
   \<not> spec_invoice_invariant full_discount_bill"
  by code_simp

text \<open>
  C1, amended: in every store reached by creating invoices, editing their line items,
  discount and tax through \<open>updateBill\<close> (a request that sets none of total, paid amount,
  balance and status) and recording payments of a positive amount, every stored invoice
  has \<open>balance = total - paid\<close>, and its status is PAID when \<open>paid \<ge> total\<close>, otherwise
  PARTIAL when \<open>paid > 0\<close>, otherwise PENDING.  This is rule 7 of the specification for
  every invoice with a positive total or a positive paid amount.
\<close>

theorem C1_saved_invoices_consistent:
  assumes "billing_reachable st" and "findById i (bills st) = Some b"
  shows "invoice_consistent b \<and>
         (0 < totalAmount b \<or> 0 < paidAmount b \<longrightarrow> spec_invoice_invariant b)"
proof -
  from reachable_bills[OF assms] have c: "invoice_consistent b" and p: "0 \<le> paidAmount b"
    by simp_all
  from c p have "0 < totalAmount b \<or> 0 < paidAmount b \<longrightarrow> spec_invoice_invariant b"
    unfolding invoice_consistent_def spec_invoice_invariant_def spec_status_def by auto
  with c show ?thesis by simp
qed

text \<open>
  The invoice of scenario A is created, its tax is raised to 18 percent through
  \<open>updateBill\<close> (the stored total stays 550), and 550 is paid: the save recomputes the
  total to 590 and the invoice is PARTIAL with a balance of 40.
\<close>

theorem C1_witness:
  "billing_reachable (example_store\<lparr>bills := [(''B1'', edited_bill)]\<rparr>) \<and>
   invoice_consistent edited_bill \<and> spec_invoice_invariant edited_bill \<and>
   billing_reachable (example_store\<lparr>bills := [(''B1'', edited_paid_bill)]\<rparr>) \<and>
   invoice_consistent edited_paid_bill \<and> spec_invoice_invariant edited_paid_bill \<and>
   totalAmount edited_bill = 550 \<and> totalAmount edited_paid_bill = 590 \<and>
   balanceAmount edited_paid_bill = 40 \<and> paymentStatus edited_paid_bill = PARTIAL"
proof -
  have r0: "billing_reachable example_store"
    by (rule no_bills) (simp add: example_store_def)
  have r1: "billing_reachable (example_store\<lparr>bills := [(''B1'', scenario_A_bill)]\<rparr>)"
    by (rule created[OF r0 scenario_A_created])
  have r2: "billing_reachable (example_store\<lparr>bills := [(''B1'', edited_bill)]\<rparr>)"
    by (rule edited[OF r1 _ scenario_A_edited]) (simp add: edits_inputs_def raise_tax_def)
  have r3: "billing_reachable (example_store\<lparr>bills := [(''B1'', edited_paid_bill)]\<rparr>)"
    by (rule paid[OF r2 _ edited_bill_paid]) (simp add: full_payment_def)
  have f2: "findById ''B1'' (bills (example_store\<lparr>bills := [(''B1'', edited_bill)]\<rparr>)) =
              Some edited_bill"
    by (simp add: findById_def)
  have f3: "findById ''B1'' (bills (example_store\<lparr>bills := [(''B1'', edited_paid_bill)]\<rparr>)) =
              Some edited_paid_bill"
    by (simp add: findById_def)
  have t2: "0 < totalAmount edited_bill" "totalAmount edited_bill = 550"
    by (simp_all add: edited_bill_def scenario_A_bill_def)
  have t3: "0 < totalAmount edited_paid_bill" "totalAmount edited_paid_bill = 590"
    "balanceAmount edited_paid_bill = 40" "paymentStatus edited_paid_bill = PARTIAL"
    by (simp_all add: edited_paid_bill_def scenario_A_bill_def)
  from C1_saved_invoices_consistent[OF r2 f2] C1_saved_invoices_consistent[OF r3 f3]
    r2 r3 t2 t3 show ?thesis by blast
qed

subsection \<open>Claim C2: the recompute against the reference algorithm\<close>

lemma spec_recompute_sel:
  "services (spec_recompute b) =
     map (\<lambda>s. s\<lparr>svc_total := Some (spec_line_total s)\<rparr>) (services b)"
  "subtotal (spec_recompute b) = sum_list (map spec_line_total (services b))"
  "tax_amount (spec_recompute b) = subtotal (spec_recompute b) * tax_percentage b / 100"
  "discount_amount (spec_recompute b) =
     (if discount_percentage b > 0
      then subtotal (spec_recompute b) * discount_percentage b / 100
      else discount_amount b)"
  "totalAmount (spec_recompute b) =
     max 0 (subtotal (spec_recompute b) + tax_amount (spec_recompute b) -
            discount_amount (spec_recompute b))"
  "balanceAmount (spec_recompute b) = totalAmount (spec_recompute b) - paidAmount b"
  by (simp_all add: spec_recompute_def Let_def)

text \<open>
  C2 as stated fails: the hook clamps nothing.  A line of price 10 with a line discount
  of 20, on an invoice that passes the validators run before the hook, gets the total -10
  and the invoice the total -10, where the reference algorithm gives 0 for both.
\<close>

theorem C2_counterexample:
  "billing_valid over_discounted_bill \<and>
   totalAmount (billing_pre_save over_discounted_bill) = - 10 \<and>
   totalAmount (spec_recompute over_discounted_bill) = 0 \<and>
   map svc_total (services (billing_pre_save over_discounted_bill)) = [Some (- 10)] \<and>
   map svc_total (services (spec_recompute over_discounted_bill)) = [Some 0]"
  by code_simp

text \<open>
  C2, amended: when no line amount \<open>unitPrice * quantity - lineDiscount\<close> is negative and
  the total that the hook computes is not negative, the hook's line totals, subtotal, tax
  amount, discount amount, total and balance are those of the reference algorithm.
\<close>

theorem C2_recompute_agrees:
  assumes lines: "\<forall>s\<in>set (services b). 0 \<le> svc_unitPrice s * svc_quantity s - svc_discount s"
      and tot: "0 \<le> totalAmount (billing_pre_save b)"
  shows "services (billing_pre_save b) = services (spec_recompute b) \<and>
         subtotal (billing_pre_save b) = subtotal (spec_recompute b) \<and>
         tax_amount (billing_pre_save b) = tax_amount (spec_recompute b) \<and>
         discount_amount (billing_pre_save b) = discount_amount (spec_recompute b) \<and>
         totalAmount (billing_pre_save b) = totalAmount (spec_recompute b) \<and>
         balanceAmount (billing_pre_save b) = balanceAmount (spec_recompute b)"
proof -
  have l: "\<And>s. s \<in> set (services b) \<Longrightarrow> spec_line_total s = line_amount s"
    using lines by (simp add: spec_line_total_def line_amount_def)
  have sv: "services (billing_pre_save b) = services (spec_recompute b)"
    unfolding pre_save_services spec_recompute_sel
    by (rule map_cong) (simp_all add: service_set_total_def l[unfolded line_amount_def])
  have meq: "map spec_line_total (services b) = map line_amount (services b)"
    by (rule map_cong) (simp_all add: l)
  have su: "subtotal (billing_pre_save b) = subtotal (spec_recompute b)"
    unfolding pre_save_subtotal spec_recompute_sel(2) by (simp only: meq)
  have ta: "tax_amount (billing_pre_save b) = tax_amount (spec_recompute b)"
    by (simp add: pre_save_tax spec_recompute_sel su)
  have di: "discount_amount (billing_pre_save b) = discount_amount (spec_recompute b)"
    by (simp add: pre_save_discount spec_recompute_sel su)
  have to: "totalAmount (billing_pre_save b) = totalAmount (spec_recompute b)"
    using tot by (simp add: pre_save_total spec_recompute_sel su ta di)
  have ba: "balanceAmount (billing_pre_save b) = balanceAmount (spec_recompute b)"
    by (simp add: pre_save_balance pre_save_paid spec_recompute_sel to)
  from sv su ta di to ba show ?thesis by blast
qed

theorem C2_witness:
  "totalAmount (billing_pre_save scenario_A_bill) = totalAmount (spec_recompute scenario_A_bill) \<and>
   balanceAmount (billing_pre_save scenario_A_bill) = balanceAmount (spec_recompute scenario_A_bill) \<and>
   totalAmount (spec_recompute scenario_A_bill) = 550"
proof -
  have h1: "\<forall>s\<in>set (services scenario_A_bill).
              0 \<le> svc_unitPrice s * svc_quantity s - svc_discount s"
    by (simp add: scenario_A_bill_def)
  have h2: "0 \<le> totalAmount (billing_pre_save scenario_A_bill)" by code_simp
  have h3: "totalAmount (spec_recompute scenario_A_bill) = 550" by code_simp
  from C2_recompute_agrees[OF h1 h2] h3 show ?thesis by blast
qed

subsection \<open>Claim C3: recording a payment\<close>

text \<open>
  C3 requires a payment amount above zero.  The controller tests only that the amount
  does not exceed the balance: on the unpaid invoice of scenario A a payment of 0 is
  accepted, a payment entry of amount 0 is appended, and the status becomes PARTIAL with
  nothing paid.
\<close>

theorem C3_zero_payment_accepted:
  "addPayment ''U1'' 1000 ''B1'' zero_payment (example_store\<lparr>bills := [(''B1'', scenario_A_bill)]\<rparr>) =
     Inr (example_store\<lparr>bills := [(''B1'', scenario_A_bill
        \<lparr>paymentStatus := PARTIAL,
         payments := [\<lparr>pay_amount = 0, pay_method = Cash, pay_transactionId = None,
                       pay_date = 1000, pay_receivedBy = ''U1'', pay_notes = None\<rparr>]\<rparr>)]\<rparr>)"
  by code_simp

subsection \<open>Bed and inpatient operations, case by case\<close>

lemma createBed_Inr:
  assumes "createBed new_id body st = Inr st'"
  shows "st' = st\<lparr>beds := put_doc new_id
           \<lparr>bedNumber = bi_bedNumber body, ward = bi_ward body,
            bed_state = schema_default (bi_status body) AVAILABLE,
            currentPatient = bi_currentPatient body,
            dailyRate = bi_dailyRate body, bed_notes = bi_notes body\<rparr> (beds st)\<rparr>"
  using assms unfolding createBed_def Let_def by (simp split: if_splits)

lemma updateBed_Inr:
  assumes "updateBed i body st = Inr st'"
  shows "st' = st\<lparr>beds := findByIdAndUpdate i (apply_bed_patch body) (beds st)\<rparr>"
  using assms unfolding updateBed_def by (simp split: option.splits if_splits)

lemma deleteBed_cases:
  assumes "findById i (beds st) = Some bed"
  shows "deleteBed i st =
     (if bed_state bed = OCCUPIED then Inl (BadRequest ''Cannot delete an occupied bed'')
      else Inr (st\<lparr>beds := deleteOne i (beds st)\<rparr>))"
  using assms unfolding deleteBed_def by simp

lemma deleteBed_Inr:
  assumes "deleteBed i st = Inr st'"
  shows "\<exists>bed. findById i (beds st) = Some bed \<and> bed_state bed \<noteq> OCCUPIED \<and>
               st' = st\<lparr>beds := deleteOne i (beds st)\<rparr>"
  using assms unfolding deleteBed_def by (auto split: option.splits if_splits)

lemma markMaintenance_cases:
  assumes "findById i (beds st) = Some bed"
  shows "markMaintenance i notes st =
     (if bed_state bed = OCCUPIED
      then Inl (BadRequest ''Cannot mark occupied bed for maintenance'')
      else Inr (st\<lparr>beds := put_doc i
              (bed\<lparr>bed_state := MAINTENANCE, bed_notes := Some (maintenance_notes notes)\<rparr>)
              (beds st)\<rparr>))"
  using assms unfolding markMaintenance_def Let_def maintenance_notes_def by simp

lemma markMaintenance_Inr:
  assumes "markMaintenance i notes st = Inr st'"
  shows "\<exists>bed. findById i (beds st) = Some bed \<and> bed_state bed \<noteq> OCCUPIED \<and>
           st' = st\<lparr>beds := put_doc i
              (bed\<lparr>bed_state := MAINTENANCE, bed_notes := Some (maintenance_notes notes)\<rparr>)
              (beds st)\<rparr>"
proof -
  from assms obtain bed where b: "findById i (beds st) = Some bed"
    unfolding markMaintenance_def by (auto split: option.splits)
  with assms show ?thesis unfolding markMaintenance_cases[OF b] by (auto split: if_splits)
qed

lemma has_admitted_stay_find:
  "has_admitted_stay p st \<longleftrightarrow>
     find (\<lambda>(j, r). ipd_patientId r = p \<and> ipd_state r = ADMITTED) (ipdRecords st) \<noteq> None"
  by (auto simp add: has_admitted_stay_def find_None_iff list_ex_iff)

lemma admitPatient_cases:
  assumes "ar_patientId req \<in> set (patients st)"
      and "findById (ar_bedId req) (beds st) = Some bed"
  shows "admitPatient new_id now req st =
     (if bed_state bed \<noteq> AVAILABLE then Inl (BadRequest ''Bed is not available'')
      else if has_admitted_stay (ar_patientId req) st
      then Inl (BadRequest ''Patient is already admitted'')
      else case ar_doctorId req of
        None \<Rightarrow> Inl (ValidationError ''IPDRecord validation failed'')
      | Some doctorId \<Rightarrow>
          if ar_admissionReason req = [] then Inl (ValidationError ''IPDRecord validation failed'')
          else Inr (st\<lparr>ipdRecords := put_doc new_id (new_stay now req doctorId) (ipdRecords st),
                      beds := put_doc (ar_bedId req)
                        (bed\<lparr>bed_state := OCCUPIED, currentPatient := Some (ar_patientId req)\<rparr>)
                        (beds st)\<rparr>))"
  using assms unfolding admitPatient_def Let_def has_admitted_stay_find new_stay_def
  by (simp split: option.splits)

lemma admitPatient_Inr:
  assumes "admitPatient new_id now req st = Inr st'"
  shows "\<exists>bed doctorId. findById (ar_bedId req) (beds st) = Some bed \<and>
           bed_state bed = AVAILABLE \<and> \<not> has_admitted_stay (ar_patientId req) st \<and>
           st' = st\<lparr>ipdRecords := put_doc new_id (new_stay now req doctorId) (ipdRecords st),
                    beds := put_doc (ar_bedId req)
                      (bed\<lparr>bed_state := OCCUPIED, currentPatient := Some (ar_patientId req)\<rparr>)
                      (beds st)\<rparr>"
proof -
  from assms have p: "ar_patientId req \<in> set (patients st)"
    unfolding admitPatient_def by (auto split: if_splits)
  from assms p obtain bed where b: "findById (ar_bedId req) (beds st) = Some bed"
    unfolding admitPatient_def by (auto split: option.splits)
  from assms show ?thesis unfolding admitPatient_cases[OF p b] using b
    by (auto split: if_splits option.splits)
qed

lemma set_dischargeSummary_Some:
  assumes "set_dischargeSummary v r = Some r'"
  shows "\<exists>s. r' = r\<lparr>dischargeSummary := s\<rparr>"
  using assms unfolding set_dischargeSummary_def
  by (auto split: summary_input.splits option.splits)

lemma dischargePatient_cases:
  assumes "findById i (ipdRecords st) = Some r"
  shows "dischargePatient now i summary st =
     (if ipd_state r \<noteq> ADMITTED then Inl (BadRequest ''Patient is not currently admitted'')
      else case set_dischargeSummary summary
                  (r\<lparr>ipd_state := DISCHARGED, dischargeDate := Some now\<rparr>) of
        None \<Rightarrow> Inl (ValidationError ''IPDRecord validation failed'')
      | Some nr \<Rightarrow>
          Inr (st\<lparr>ipdRecords := put_doc i nr (ipdRecords st),
                  beds := findByIdAndUpdate (ipd_bedId r) free_bed (beds st)\<rparr>))"
proof (cases "set_dischargeSummary summary (r\<lparr>ipd_state := DISCHARGED, dischargeDate := Some now\<rparr>)")
  case None
  with assms show ?thesis unfolding dischargePatient_def Let_def by simp
next
  case (Some nr)
  from set_dischargeSummary_Some[OF Some] have "ipd_bedId nr = ipd_bedId r" by auto
  with assms Some show ?thesis unfolding dischargePatient_def Let_def by simp
qed

lemma dischargePatient_Inr:
  assumes "dischargePatient now i summary st = Inr st'"
  shows "\<exists>r s. findById i (ipdRecords st) = Some r \<and> ipd_state r = ADMITTED \<and>
           st' = st\<lparr>ipdRecords := put_doc i
                    (r\<lparr>ipd_state := DISCHARGED, dischargeDate := Some now,
                       dischargeSummary := s\<rparr>) (ipdRecords st),
                  beds := findByIdAndUpdate (ipd_bedId r) free_bed (beds st)\<rparr>"
proof -
  from assms obtain r where r: "findById i (ipdRecords st) = Some r"
    unfolding dischargePatient_def by (auto split: option.splits)
  from assms have a: "ipd_state r = ADMITTED"
    unfolding dischargePatient_cases[OF r] by (auto split: if_splits)
  with assms obtain nr where
    nr: "set_dischargeSummary summary (r\<lparr>ipd_state := DISCHARGED, dischargeDate := Some now\<rparr>) =
           Some nr"
    and st': "st' = st\<lparr>ipdRecords := put_doc i nr (ipdRecords st),
                       beds := findByIdAndUpdate (ipd_bedId r) free_bed (beds st)\<rparr>"
    unfolding dischargePatient_cases[OF r] by (auto split: option.splits)
  from set_dischargeSummary_Some[OF nr] obtain s where
    "nr = r\<lparr>ipd_state := DISCHARGED, dischargeDate := Some now, dischargeSummary := s\<rparr>"
    by auto
  with r a st' show ?thesis by blast
qed

lemma transferPatient_cases:
  assumes "findById i (ipdRecords st) = Some r"
      and "findById newBedId (beds st) = Some nb"
  shows "transferPatient user now i newBedId st =
     (if bed_state nb \<noteq> AVAILABLE then Inl (BadRequest ''New bed is not available'')
      else Inr (st\<lparr>beds := put_doc newBedId
                    (nb\<lparr>bed_state := OCCUPIED, currentPatient := Some (ipd_patientId r)\<rparr>)
                    (findByIdAndUpdate (ipd_bedId r) free_bed (beds st)),
                  ipdRecords := put_doc i
                    (r\<lparr>ipd_bedId := newBedId,
                       treatmentNotes := treatmentNotes r @ [transfer_note user now newBedId]\<rparr>)
                    (ipdRecords st)\<rparr>))"
  using assms unfolding transferPatient_def Let_def transfer_note_def by simp

lemma transferPatient_Inr:
  assumes "transferPatient user now i newBedId st = Inr st'"
      and "findById i (ipdRecords st) = Some r"
  shows "\<exists>nb. findById newBedId (beds st) = Some nb \<and> bed_state nb = AVAILABLE \<and>
           st' = st\<lparr>beds := put_doc newBedId
                    (nb\<lparr>bed_state := OCCUPIED, currentPatient := Some (ipd_patientId r)\<rparr>)
                    (findByIdAndUpdate (ipd_bedId r) free_bed (beds st)),
                  ipdRecords := put_doc i
                    (r\<lparr>ipd_bedId := newBedId,
                       treatmentNotes := treatmentNotes r @ [transfer_note user now newBedId]\<rparr>)
                    (ipdRecords st)\<rparr>"
proof -
  from assms obtain nb where nb: "findById newBedId (beds st) = Some nb"
    unfolding transferPatient_def by (auto split: option.splits)
  from assms(1) show ?thesis unfolding transferPatient_cases[OF assms(2) nb] using nb
    by (auto split: if_splits)
qed

subsection \<open>The scenarios of the specification, evaluated\<close>

lemma bed_B1_created: "createBed ''BED1'' bed_B1_input example_store = Inr store_with_bed"
  by code_simp

lemma P1_admitted: "admitPatient ''S1'' 1000 admit_P1 store_with_bed = Inr store_admitted"
  by code_simp

lemma S1_discharged: "dischargePatient 2000 ''S1'' No_summary store_admitted = Inr store_discharged"
  by code_simp

lemma S1_transferred:
  "transferPatient ''U1'' 3000 ''S1'' ''BED2'' store_two_beds = Inr store_transferred"
  by code_simp

subsection \<open>Claim C4: admission\<close>

text \<open>
  C4: for a patient and a bed that exist, \<open>admitPatient\<close> is rejected with the 400
  response "Bed is not available" when the bed is not AVAILABLE, and with the 400 response
  "Patient is already admitted" when the patient has a stay in ADMITTED state; otherwise,
  for a request that names a doctor and a reason, it creates a stay in ADMITTED state for
  that patient, doctor and bed, and the bed becomes OCCUPIED with the patient as occupant.
\<close>

theorem C4_admit:
  assumes "ar_patientId req \<in> set (patients st)"
      and "findById (ar_bedId req) (beds st) = Some bed"
  shows "(bed_state bed \<noteq> AVAILABLE \<longrightarrow>
            admitPatient new_id now req st = Inl (BadRequest ''Bed is not available'')) \<and>
         (bed_state bed = AVAILABLE \<longrightarrow> has_admitted_stay (ar_patientId req) st \<longrightarrow>
            admitPatient new_id now req st = Inl (BadRequest ''Patient is already admitted'')) \<and>
         (has_admitted_stay (ar_patientId req) st \<longrightarrow>
            (\<exists>msg. admitPatient new_id now req st = Inl (BadRequest msg))) \<and>
         (bed_state bed = AVAILABLE \<longrightarrow> \<not> has_admitted_stay (ar_patientId req) st \<longrightarrow>
          ar_doctorId req = Some d \<longrightarrow> ar_admissionReason req \<noteq> [] \<longrightarrow>
            (\<exists>st' r. admitPatient new_id now req st = Inr st' \<and>
               findById new_id (ipdRecords st') = Some r \<and> ipd_state r = ADMITTED \<and>
               ipd_patientId r = ar_patientId req \<and> ipd_doctorId r = d \<and>
               ipd_bedId r = ar_bedId req \<and>
               findById (ar_bedId req) (beds st') =
                 Some (bed\<lparr>bed_state := OCCUPIED, currentPatient := Some (ar_patientId req)\<rparr>)))"
  unfolding admitPatient_cases[OF assms]
  by (simp add: findById_put_doc new_stay_def)

theorem C4_witness:
  "(\<exists>st' r. admitPatient ''S1'' 1000 admit_P1 store_with_bed = Inr st' \<and>
      findById ''S1'' (ipdRecords st') = Some r \<and> ipd_state r = ADMITTED \<and>
      ipd_patientId r = ''P1'' \<and> ipd_doctorId r = ''D1'' \<and> ipd_bedId r = ''BED1'' \<and>
      findById ''BED1'' (beds st') =
        Some (bed_B1\<lparr>bed_state := OCCUPIED, currentPatient := Some ''P1''\<rparr>)) \<and>
   admitPatient ''S2'' 1500 admit_P2 (store_admitted\<lparr>patients := [''P1'', ''P2'']\<rparr>) =
     Inl (BadRequest ''Bed is not available'')"
proof -
  have p: "ar_patientId admit_P1 \<in> set (patients store_with_bed)" by code_simp
  have b: "findById (ar_bedId admit_P1) (beds store_with_bed) = Some bed_B1" by code_simp
  have a: "bed_state bed_B1 = AVAILABLE" by (simp add: bed_B1_def)
  have n: "\<not> has_admitted_stay (ar_patientId admit_P1) store_with_bed" by code_simp
  have d: "ar_doctorId admit_P1 = Some ''D1''" "ar_admissionReason admit_P1 \<noteq> []"
    "ar_patientId admit_P1 = ''P1''" "ar_bedId admit_P1 = ''BED1''"
    by (simp_all add: admit_P1_def)
  from C4_admit[OF p b, where d = "''D1''" and new_id = "''S1''" and now = 1000] a n d
  have 1: "\<exists>st' r. admitPatient ''S1'' 1000 admit_P1 store_with_bed = Inr st' \<and>
      findById ''S1'' (ipdRecords st') = Some r \<and> ipd_state r = ADMITTED \<and>
      ipd_patientId r = ''P1'' \<and> ipd_doctorId r = ''D1'' \<and> ipd_bedId r = ''BED1'' \<and>
      findById ''BED1'' (beds st') =
        Some (bed_B1\<lparr>bed_state := OCCUPIED, currentPatient := Some ''P1''\<rparr>)"
    by simp
  let ?st = "store_admitted\<lparr>patients := [''P1'', ''P2'']\<rparr>"
  have p2: "ar_patientId admit_P2 \<in> set (patients ?st)" by code_simp
  have b2: "findById (ar_bedId admit_P2) (beds ?st) =
              Some (bed_B1\<lparr>bed_state := OCCUPIED, currentPatient := Some ''P1''\<rparr>)" by code_simp
  from C4_admit[OF p2 b2, where new_id = "''S2''" and now = 1500]
  have 2: "admitPatient ''S2'' 1500 admit_P2 ?st = Inl (BadRequest ''Bed is not available'')"
    by simp
  from 1 2 show ?thesis by simp
qed

subsection \<open>The invariant of beds and stays\<close>

lemma ward_inv_beds_distinct: "ward_inv st \<Longrightarrow> distinct (map fst (beds st))"
  and ward_inv_stays_distinct: "ward_inv st \<Longrightarrow> distinct (map fst (ipdRecords st))"
  and ward_inv_bed: "ward_inv st \<Longrightarrow> findById i (beds st) = Some b \<Longrightarrow>
        (bed_state b = OCCUPIED) = (currentPatient b \<noteq> None)"
  and ward_inv_stay: "ward_inv st \<Longrightarrow> findById j (ipdRecords st) = Some r \<Longrightarrow>
        ipd_state r = ADMITTED \<Longrightarrow>
        \<exists>b. findById (ipd_bedId r) (beds st) = Some b \<and> bed_state b = OCCUPIED \<and>
            currentPatient b = Some (ipd_patientId r)"
  and ward_inv_single: "ward_inv st \<Longrightarrow> findById j (ipdRecords st) = Some r \<Longrightarrow>
        findById j' (ipdRecords st) = Some r' \<Longrightarrow> ipd_state r = ADMITTED \<Longrightarrow>
        ipd_state r' = ADMITTED \<Longrightarrow> ipd_patientId r = ipd_patientId r' \<Longrightarrow> j = j'"
  unfolding ward_inv_def by blast+

lemma ward_invI:
  assumes "distinct (map fst (beds st))" and "distinct (map fst (ipdRecords st))"
    and "\<And>i b. findById i (beds st) = Some b \<Longrightarrow>
           (bed_state b = OCCUPIED) = (currentPatient b \<noteq> None)"
    and "\<And>j r. findById j (ipdRecords st) = Some r \<Longrightarrow> ipd_state r = ADMITTED \<Longrightarrow>
           \<exists>b. findById (ipd_bedId r) (beds st) = Some b \<and> bed_state b = OCCUPIED \<and>
               currentPatient b = Some (ipd_patientId r)"
    and "\<And>j r j' r'. findById j (ipdRecords st) = Some r \<Longrightarrow>
           findById j' (ipdRecords st) = Some r' \<Longrightarrow> ipd_state r = ADMITTED \<Longrightarrow>
           ipd_state r' = ADMITTED \<Longrightarrow> ipd_patientId r = ipd_patientId r' \<Longrightarrow> j = j'"
  shows "ward_inv st"
  unfolding ward_inv_def using assms by blast

text \<open>Two ADMITTED stays on one bed are the same stay.\<close>

lemma ward_inv_same_bed:
  assumes inv: "ward_inv st"
    and r: "findById j (ipdRecords st) = Some r" "ipd_state r = ADMITTED"
    and r': "findById j' (ipdRecords st) = Some r'" "ipd_state r' = ADMITTED"
    and same: "ipd_bedId r = ipd_bedId r'"
  shows "j = j'"
proof -
  from ward_inv_stay[OF inv r] obtain b where
    b: "findById (ipd_bedId r) (beds st) = Some b" "currentPatient b = Some (ipd_patientId r)"
    by blast
  from ward_inv_stay[OF inv r'] same b(1) have "currentPatient b = Some (ipd_patientId r')"
    by auto
  with b(2) have "ipd_patientId r = ipd_patientId r'" by simp
  from ward_inv_single[OF inv r(1) r'(1) r(2) r'(2) this] show ?thesis .
qed

text \<open>Replacing the bed under one identifier.\<close>

lemma ward_inv_set_bed:
  assumes inv: "ward_inv st"
    and dist: "distinct (map fst bs')"
    and look: "\<And>j. findById j bs' = (if j = k then nb else findById j (beds st))"
    and ok: "\<And>b. nb = Some b \<Longrightarrow> (bed_state b = OCCUPIED) = (currentPatient b \<noteq> None)"
    and coupled: "\<And>j r. findById j (ipdRecords st) = Some r \<Longrightarrow> ipd_state r = ADMITTED \<Longrightarrow>
        ipd_bedId r = k \<Longrightarrow>
        \<exists>b. nb = Some b \<and> bed_state b = OCCUPIED \<and> currentPatient b = Some (ipd_patientId r)"
  shows "ward_inv (st\<lparr>beds := bs'\<rparr>)"
proof (rule ward_invI)
  show "distinct (map fst (beds (st\<lparr>beds := bs'\<rparr>)))" using dist by simp
  show "distinct (map fst (ipdRecords (st\<lparr>beds := bs'\<rparr>)))"
    using ward_inv_stays_distinct[OF inv] by simp
next
  fix i b assume "findById i (beds (st\<lparr>beds := bs'\<rparr>)) = Some b"
  then have "(i = k \<and> nb = Some b) \<or> (i \<noteq> k \<and> findById i (beds st) = Some b)"
    by (simp add: look split: if_splits)
  then show "(bed_state b = OCCUPIED) = (currentPatient b \<noteq> None)"
    using ok ward_inv_bed[OF inv] by blast
next
  fix j r assume r: "findById j (ipdRecords (st\<lparr>beds := bs'\<rparr>)) = Some r" "ipd_state r = ADMITTED"
  then have r0: "findById j (ipdRecords st) = Some r" by simp
  show "\<exists>b. findById (ipd_bedId r) (beds (st\<lparr>beds := bs'\<rparr>)) = Some b \<and> bed_state b = OCCUPIED \<and>
            currentPatient b = Some (ipd_patientId r)"
  proof (cases "ipd_bedId r = k")
    case True
    from coupled[OF r0 r(2) True] show ?thesis by (simp add: look True)
  next
    case False
    with ward_inv_stay[OF inv r0 r(2)] show ?thesis by (simp add: look)
  qed
next
  fix j r j' r'
  assume "findById j (ipdRecords (st\<lparr>beds := bs'\<rparr>)) = Some r"
    "findById j' (ipdRecords (st\<lparr>beds := bs'\<rparr>)) = Some r'"
    "ipd_state r = ADMITTED" "ipd_state r' = ADMITTED" "ipd_patientId r = ipd_patientId r'"
  then show "j = j'" using ward_inv_single[OF inv, of j r j' r'] by simp
qed

text \<open>Writing the stay under one identifier.\<close>

lemma ward_inv_set_stay:
  assumes inv: "ward_inv st"
    and dist: "distinct (map fst rs')"
    and look: "\<And>j. findById j rs' = (if j = k then Some nr else findById j (ipdRecords st))"
    and coupled: "ipd_state nr = ADMITTED \<Longrightarrow>
        \<exists>b. findById (ipd_bedId nr) (beds st) = Some b \<and> bed_state b = OCCUPIED \<and>
            currentPatient b = Some (ipd_patientId nr)"
    and single: "\<And>j r. ipd_state nr = ADMITTED \<Longrightarrow> j \<noteq> k \<Longrightarrow>
        findById j (ipdRecords st) = Some r \<Longrightarrow> ipd_state r = ADMITTED \<Longrightarrow>
        ipd_patientId r \<noteq> ipd_patientId nr"
  shows "ward_inv (st\<lparr>ipdRecords := rs'\<rparr>)"
proof (rule ward_invI)
  show "distinct (map fst (beds (st\<lparr>ipdRecords := rs'\<rparr>)))"
    using ward_inv_beds_distinct[OF inv] by simp
  show "distinct (map fst (ipdRecords (st\<lparr>ipdRecords := rs'\<rparr>)))" using dist by simp
next
  fix i b assume "findById i (beds (st\<lparr>ipdRecords := rs'\<rparr>)) = Some b"
  then show "(bed_state b = OCCUPIED) = (currentPatient b \<noteq> None)"
    using ward_inv_bed[OF inv, of i b] by simp
next
  fix j r assume r: "findById j (ipdRecords (st\<lparr>ipdRecords := rs'\<rparr>)) = Some r" "ipd_state r = ADMITTED"
  then have "(j = k \<and> r = nr) \<or> (j \<noteq> k \<and> findById j (ipdRecords st) = Some r)"
    by (simp add: look split: if_splits)
  then show "\<exists>b. findById (ipd_bedId r) (beds (st\<lparr>ipdRecords := rs'\<rparr>)) = Some b \<and>
            bed_state b = OCCUPIED \<and> currentPatient b = Some (ipd_patientId r)"
    using coupled ward_inv_stay[OF inv, of j r] r(2) by auto
next
  fix j r j' r'
  assume a: "findById j (ipdRecords (st\<lparr>ipdRecords := rs'\<rparr>)) = Some r"
    "findById j' (ipdRecords (st\<lparr>ipdRecords := rs'\<rparr>)) = Some r'"
    "ipd_state r = ADMITTED" "ipd_state r' = ADMITTED" "ipd_patientId r = ipd_patientId r'"
  from a(1) have c1: "(j = k \<and> r = nr) \<or> (j \<noteq> k \<and> findById j (ipdRecords st) = Some r)"
    by (simp add: look split: if_splits)
  from a(2) have c2: "(j' = k \<and> r' = nr) \<or> (j' \<noteq> k \<and> findById j' (ipdRecords st) = Some r')"
    by (simp add: look split: if_splits)
  from c1 c2 show "j = j'"
    using single[of j r] single[of j' r'] ward_inv_single[OF inv, of j r j' r'] a(3,4,5)
    by metis
qed

lemma distinct_put_doc: "distinct (map fst xs) \<Longrightarrow> distinct (map fst (put_doc i d xs))"
  by (simp add: put_doc_def distinct_update)

lemma distinct_findByIdAndUpdate:
  "distinct (map fst xs) \<Longrightarrow> distinct (map fst (findByIdAndUpdate i f xs))"
  by (simp add: findByIdAndUpdate_def distinct_map_entry)

lemma distinct_deleteOne: "distinct (map fst xs) \<Longrightarrow> distinct (map fst (deleteOne i xs))"
  by (simp add: deleteOne_def distinct_delete)

text \<open>No ADMITTED stay lies on a bed that is not OCCUPIED, or on no bed.\<close>

lemma ward_inv_no_stay_on:
  assumes inv: "ward_inv st"
    and free: "\<And>b. findById k (beds st) = Some b \<Longrightarrow> bed_state b \<noteq> OCCUPIED"
    and r: "findById j (ipdRecords st) = Some r" "ipd_state r = ADMITTED" "ipd_bedId r = k"
  shows False
  using ward_inv_stay[OF inv r(1,2)] free r(3) by auto

lemma ward_inv_createBed:
  assumes inv: "ward_inv st" and s: "bi_status body \<noteq> Some OCCUPIED"
    and p: "bi_currentPatient body = None" and fresh: "findById new_id (beds st) = None"
    and op: "createBed new_id body st = Inr st'"
  shows "ward_inv st'"
  unfolding createBed_Inr[OF op]
proof (rule ward_inv_set_bed[OF inv, where k = new_id and nb = "Some _"])
  show "distinct (map fst (put_doc new_id b (beds st)))" for b
    by (rule distinct_put_doc[OF ward_inv_beds_distinct[OF inv]])
  show "findById j (put_doc new_id b (beds st)) = (if j = new_id then Some b else findById j (beds st))" for j b
    by (rule findById_put_doc)
next
  fix b assume "Some \<lparr>bedNumber = bi_bedNumber body, ward = bi_ward body,
            bed_state = schema_default (bi_status body) AVAILABLE,
            currentPatient = bi_currentPatient body,
            dailyRate = bi_dailyRate body, bed_notes = bi_notes body\<rparr> = Some b"
  then show "(bed_state b = OCCUPIED) = (currentPatient b \<noteq> None)"
    using s p by (auto simp add: schema_default_def split: option.splits)
next
  fix j r assume "findById j (ipdRecords st) = Some r" "ipd_state r = ADMITTED" "ipd_bedId r = new_id"
  with ward_inv_no_stay_on[OF inv _ this] fresh
  show "\<exists>b. Some \<lparr>bedNumber = bi_bedNumber body, ward = bi_ward body,
            bed_state = schema_default (bi_status body) AVAILABLE,
            currentPatient = bi_currentPatient body,
            dailyRate = bi_dailyRate body, bed_notes = bi_notes body\<rparr> = Some b \<and>
          bed_state b = OCCUPIED \<and> currentPatient b = Some (ipd_patientId r)"
    by simp
qed

lemma ward_inv_updateBed:
  assumes inv: "ward_inv st" and b: "findById i (beds st) = Some b"
    and keep: "keeps_occupancy body b" and op: "updateBed i body st = Inr st'"
  shows "ward_inv st'"
  unfolding updateBed_Inr[OF op]
proof (rule ward_inv_set_bed[OF inv, where k = i and nb = "Some (apply_bed_patch body b)"])
  show "distinct (map fst (findByIdAndUpdate i (apply_bed_patch body) (beds st)))"
    by (rule distinct_findByIdAndUpdate[OF ward_inv_beds_distinct[OF inv]])
  show "findById j (findByIdAndUpdate i (apply_bed_patch body) (beds st)) =
          (if j = i then Some (apply_bed_patch body b) else findById j (beds st))" for j
    by (simp add: findById_findByIdAndUpdate b)
next
  fix b' assume "Some (apply_bed_patch body b) = Some b'"
  then show "(bed_state b' = OCCUPIED) = (currentPatient b' \<noteq> None)"
    using keep ward_inv_bed[OF inv b] by (auto simp add: keeps_occupancy_def)
next
  fix j r assume "findById j (ipdRecords st) = Some r" "ipd_state r = ADMITTED" "ipd_bedId r = i"
  from ward_inv_stay[OF inv this(1,2)] this(3) b keep
  show "\<exists>b'. Some (apply_bed_patch body b) = Some b' \<and> bed_state b' = OCCUPIED \<and>
          currentPatient b' = Some (ipd_patientId r)"
    by (auto simp add: keeps_occupancy_def)
qed

lemma ward_inv_deleteBed:
  assumes inv: "ward_inv st" and op: "deleteBed i st = Inr st'"
  shows "ward_inv st'"
proof -
  from deleteBed_Inr[OF op] obtain bed where
    b: "findById i (beds st) = Some bed" "bed_state bed \<noteq> OCCUPIED"
    and st': "st' = st\<lparr>beds := deleteOne i (beds st)\<rparr>" by blast
  show ?thesis unfolding st'
  proof (rule ward_inv_set_bed[OF inv, where k = i and nb = None])
    show "distinct (map fst (deleteOne i (beds st)))"
      by (rule distinct_deleteOne[OF ward_inv_beds_distinct[OF inv]])
    show "findById j (deleteOne i (beds st)) = (if j = i then None else findById j (beds st))" for j
      by (rule findById_deleteOne)
  next
    fix j r assume "findById j (ipdRecords st) = Some r" "ipd_state r = ADMITTED" "ipd_bedId r = i"
    from ward_inv_no_stay_on[OF inv _ this] b
    show "\<exists>b. None = Some b \<and> bed_state b = OCCUPIED \<and> currentPatient b = Some (ipd_patientId r)"
      by simp
  qed simp
qed

lemma ward_inv_markMaintenance:
  assumes inv: "ward_inv st" and op: "markMaintenance i notes st = Inr st'"
  shows "ward_inv st'"
proof -
  from markMaintenance_Inr[OF op] obtain bed where
    b: "findById i (beds st) = Some bed" "bed_state bed \<noteq> OCCUPIED"
    and st': "st' = st\<lparr>beds := put_doc i
        (bed\<lparr>bed_state := MAINTENANCE, bed_notes := Some (maintenance_notes notes)\<rparr>) (beds st)\<rparr>"
    by blast
  from ward_inv_bed[OF inv b(1)] b(2) have none: "currentPatient bed = None" by simp
  show ?thesis unfolding st'
  proof (rule ward_inv_set_bed[OF inv, where k = i and nb = "Some _"])
    show "distinct (map fst (put_doc i x (beds st)))" for x
      by (rule distinct_put_doc[OF ward_inv_beds_distinct[OF inv]])
    show "findById j (put_doc i x (beds st)) = (if j = i then Some x else findById j (beds st))" for j x
      by (rule findById_put_doc)
  next
    fix b' assume "Some (bed\<lparr>bed_state := MAINTENANCE, bed_notes := Some (maintenance_notes notes)\<rparr>) = Some b'"
    then show "(bed_state b' = OCCUPIED) = (currentPatient b' \<noteq> None)" using none by auto
  next
    fix j r assume "findById j (ipdRecords st) = Some r" "ipd_state r = ADMITTED" "ipd_bedId r = i"
    from ward_inv_no_stay_on[OF inv _ this] b
    show "\<exists>b'. Some (bed\<lparr>bed_state := MAINTENANCE, bed_notes := Some (maintenance_notes notes)\<rparr>) = Some b' \<and>
            bed_state b' = OCCUPIED \<and> currentPatient b' = Some (ipd_patientId r)"
      by simp
  qed
qed

lemma store_update_commute:
  "st\<lparr>beds := bs, ipdRecords := rs\<rparr> = st\<lparr>ipdRecords := rs, beds := bs\<rparr>"
  by (cases st) simp

lemma has_admitted_stay_lookup:
  assumes "\<not> has_admitted_stay p st" and "findById j (ipdRecords st) = Some r"
    and "ipd_state r = ADMITTED"
  shows "ipd_patientId r \<noteq> p"
proof
  assume "ipd_patientId r = p"
  moreover from assms(2) have "(j, r) \<in> set (ipdRecords st)"
    unfolding findById_def by (rule map_of_SomeD)
  ultimately have "has_admitted_stay p st"
    using assms(3) unfolding has_admitted_stay_def list_ex_iff by force
  with assms(1) show False by simp
qed

lemma ward_inv_admitPatient:
  assumes inv: "ward_inv st" and op: "admitPatient new_id now req st = Inr st'"
  shows "ward_inv st'"
proof -
  from admitPatient_Inr[OF op] obtain bed doctorId where
    b: "findById (ar_bedId req) (beds st) = Some bed" "bed_state bed = AVAILABLE"
    and na: "\<not> has_admitted_stay (ar_patientId req) st"
    and st': "st' = st\<lparr>ipdRecords := put_doc new_id (new_stay now req doctorId) (ipdRecords st),
                    beds := put_doc (ar_bedId req)
                      (bed\<lparr>bed_state := OCCUPIED, currentPatient := Some (ar_patientId req)\<rparr>)
                      (beds st)\<rparr>" by blast
  let ?nb = "bed\<lparr>bed_state := OCCUPIED, currentPatient := Some (ar_patientId req)\<rparr>"
  let ?st1 = "st\<lparr>beds := put_doc (ar_bedId req) ?nb (beds st)\<rparr>"
  have inv1: "ward_inv ?st1"
  proof (rule ward_inv_set_bed[OF inv, where k = "ar_bedId req" and nb = "Some ?nb"])
    show "distinct (map fst (put_doc (ar_bedId req) ?nb (beds st)))"
      by (rule distinct_put_doc[OF ward_inv_beds_distinct[OF inv]])
    show "findById j (put_doc (ar_bedId req) ?nb (beds st)) =
            (if j = ar_bedId req then Some ?nb else findById j (beds st))" for j
      by (rule findById_put_doc)
  next
    fix b' assume "Some ?nb = Some b'"
    then show "(bed_state b' = OCCUPIED) = (currentPatient b' \<noteq> None)" by auto
  next
    fix j r assume "findById j (ipdRecords st) = Some r" "ipd_state r = ADMITTED"
      "ipd_bedId r = ar_bedId req"
    from ward_inv_no_stay_on[OF inv _ this] b
    show "\<exists>b'. Some ?nb = Some b' \<and> bed_state b' = OCCUPIED \<and>
            currentPatient b' = Some (ipd_patientId r)" by simp
  qed
  have "ward_inv (?st1\<lparr>ipdRecords := put_doc new_id (new_stay now req doctorId) (ipdRecords ?st1)\<rparr>)"
  proof (rule ward_inv_set_stay[OF inv1, where k = new_id and nr = "new_stay now req doctorId"])
    show "distinct (map fst (put_doc new_id (new_stay now req doctorId) (ipdRecords ?st1)))"
      by (rule distinct_put_doc[OF ward_inv_stays_distinct[OF inv1]])
    show "findById j (put_doc new_id (new_stay now req doctorId) (ipdRecords ?st1)) =
            (if j = new_id then Some (new_stay now req doctorId) else findById j (ipdRecords ?st1))" for j
      by (rule findById_put_doc)
    show "\<exists>b. findById (ipd_bedId (new_stay now req doctorId)) (beds ?st1) = Some b \<and>
            bed_state b = OCCUPIED \<and>
            currentPatient b = Some (ipd_patientId (new_stay now req doctorId))"
      by (simp add: new_stay_def findById_put_doc)
  next
    fix j r assume "findById j (ipdRecords ?st1) = Some r" "ipd_state r = ADMITTED"
    then show "ipd_patientId r \<noteq> ipd_patientId (new_stay now req doctorId)"
      using has_admitted_stay_lookup[OF na, of j r] by (simp add: new_stay_def)
  qed
  then show ?thesis unfolding st' by (simp add: store_update_commute)
qed

lemma ward_inv_dischargePatient:
  assumes inv: "ward_inv st" and op: "dischargePatient now i summary st = Inr st'"
  shows "ward_inv st'"
proof -
  from dischargePatient_Inr[OF op] obtain r s where
    r: "findById i (ipdRecords st) = Some r" "ipd_state r = ADMITTED"
    and st': "st' = st\<lparr>ipdRecords := put_doc i
                    (r\<lparr>ipd_state := DISCHARGED, dischargeDate := Some now,
                       dischargeSummary := s\<rparr>) (ipdRecords st),
                  beds := findByIdAndUpdate (ipd_bedId r) free_bed (beds st)\<rparr>" by blast
  let ?nr = "r\<lparr>ipd_state := DISCHARGED, dischargeDate := Some now, dischargeSummary := s\<rparr>"
  let ?st1 = "st\<lparr>ipdRecords := put_doc i ?nr (ipdRecords st)\<rparr>"
  have inv1: "ward_inv ?st1"
  proof (rule ward_inv_set_stay[OF inv, where k = i and nr = ?nr])
    show "distinct (map fst (put_doc i ?nr (ipdRecords st)))"
      by (rule distinct_put_doc[OF ward_inv_stays_distinct[OF inv]])
    show "findById j (put_doc i ?nr (ipdRecords st)) =
            (if j = i then Some ?nr else findById j (ipdRecords st))" for j
      by (rule findById_put_doc)
  qed simp_all
  from ward_inv_stay[OF inv r] obtain ob where
    ob: "findById (ipd_bedId r) (beds st) = Some ob" by blast
  have "ward_inv (?st1\<lparr>beds := findByIdAndUpdate (ipd_bedId r) free_bed (beds ?st1)\<rparr>)"
  proof (rule ward_inv_set_bed[OF inv1, where k = "ipd_bedId r" and nb = "Some (free_bed ob)"])
    show "distinct (map fst (findByIdAndUpdate (ipd_bedId r) free_bed (beds ?st1)))"
      by (rule distinct_findByIdAndUpdate[OF ward_inv_beds_distinct[OF inv1]])
    show "findById j (findByIdAndUpdate (ipd_bedId r) free_bed (beds ?st1)) =
            (if j = ipd_bedId r then Some (free_bed ob) else findById j (beds ?st1))" for j
      by (simp add: findById_findByIdAndUpdate ob)
  next
    fix b' assume "Some (free_bed ob) = Some b'"
    then show "(bed_state b' = OCCUPIED) = (currentPatient b' \<noteq> None)"
      by (auto simp add: free_bed_def)
  next
    fix j r' assume a: "findById j (ipdRecords ?st1) = Some r'" "ipd_state r' = ADMITTED"
      "ipd_bedId r' = ipd_bedId r"
    then have "j \<noteq> i" by (auto simp add: findById_put_doc)
    with a(1) have "findById j (ipdRecords st) = Some r'" by (simp add: findById_put_doc)
    from ward_inv_same_bed[OF inv this a(2) r a(3)] \<open>j \<noteq> i\<close>
    show "\<exists>b'. Some (free_bed ob) = Some b' \<and> bed_state b' = OCCUPIED \<and>
            currentPatient b' = Some (ipd_patientId r')" by simp
  qed
  then show ?thesis unfolding st' by (simp add: store_update_commute)
qed

lemma ward_inv_transferPatient:
  assumes inv: "ward_inv st" and r: "findById i (ipdRecords st) = Some r" "ipd_state r = ADMITTED"
    and op: "transferPatient user now i newBedId st = Inr st'"
  shows "ward_inv st'"
proof -
  from transferPatient_Inr[OF op r(1)] obtain nb where
    nb: "findById newBedId (beds st) = Some nb" "bed_state nb = AVAILABLE"
    and st': "st' = st\<lparr>beds := put_doc newBedId
                    (nb\<lparr>bed_state := OCCUPIED, currentPatient := Some (ipd_patientId r)\<rparr>)
                    (findByIdAndUpdate (ipd_bedId r) free_bed (beds st)),
                  ipdRecords := put_doc i
                    (r\<lparr>ipd_bedId := newBedId,
                       treatmentNotes := treatmentNotes r @ [transfer_note user now newBedId]\<rparr>)
                    (ipdRecords st)\<rparr>" by blast
  from ward_inv_stay[OF inv r] obtain ob where
    ob: "findById (ipd_bedId r) (beds st) = Some ob" "bed_state ob = OCCUPIED" by blast
  with nb have ne: "ipd_bedId r \<noteq> newBedId" by auto
  let ?nb = "nb\<lparr>bed_state := OCCUPIED, currentPatient := Some (ipd_patientId r)\<rparr>"
  let ?nr = "r\<lparr>ipd_bedId := newBedId,
               treatmentNotes := treatmentNotes r @ [transfer_note user now newBedId]\<rparr>"
  let ?bs = "put_doc newBedId ?nb (findByIdAndUpdate (ipd_bedId r) free_bed (beds st))"
  let ?sta = "st\<lparr>beds := put_doc newBedId ?nb (beds st)\<rparr>"
  have inva: "ward_inv ?sta"
  proof (rule ward_inv_set_bed[OF inv, where k = newBedId and nb = "Some ?nb"])
    show "distinct (map fst (put_doc newBedId ?nb (beds st)))"
      by (rule distinct_put_doc[OF ward_inv_beds_distinct[OF inv]])
    show "findById j (put_doc newBedId ?nb (beds st)) =
            (if j = newBedId then Some ?nb else findById j (beds st))" for j
      by (rule findById_put_doc)
  next
    fix b' assume "Some ?nb = Some b'"
    then show "(bed_state b' = OCCUPIED) = (currentPatient b' \<noteq> None)" by auto
  next
    fix j r' assume "findById j (ipdRecords st) = Some r'" "ipd_state r' = ADMITTED"
      "ipd_bedId r' = newBedId"
    from ward_inv_no_stay_on[OF inv _ this] nb
    show "\<exists>b'. Some ?nb = Some b' \<and> bed_state b' = OCCUPIED \<and>
            currentPatient b' = Some (ipd_patientId r')" by simp
  qed
  let ?stb = "?sta\<lparr>ipdRecords := put_doc i ?nr (ipdRecords ?sta)\<rparr>"
  have invb: "ward_inv ?stb"
  proof (rule ward_inv_set_stay[OF inva, where k = i and nr = ?nr])
    show "distinct (map fst (put_doc i ?nr (ipdRecords ?sta)))"
      by (rule distinct_put_doc[OF ward_inv_stays_distinct[OF inva]])
    show "findById j (put_doc i ?nr (ipdRecords ?sta)) =
            (if j = i then Some ?nr else findById j (ipdRecords ?sta))" for j
      by (rule findById_put_doc)
    show "\<exists>b. findById (ipd_bedId ?nr) (beds ?sta) = Some b \<and> bed_state b = OCCUPIED \<and>
            currentPatient b = Some (ipd_patientId ?nr)"
      by (simp add: findById_put_doc)
  next
    fix j r' assume a: "j \<noteq> i" "findById j (ipdRecords ?sta) = Some r'" "ipd_state r' = ADMITTED"
    show "ipd_patientId r' \<noteq> ipd_patientId ?nr"
    proof
      assume "ipd_patientId r' = ipd_patientId ?nr"
      then have "ipd_patientId r' = ipd_patientId r" by simp
      from ward_inv_single[OF inv _ r(1) a(3) r(2) this] a(1,2) show False by simp
    qed
  qed
  have "ward_inv (?stb\<lparr>beds := ?bs\<rparr>)"
  proof (rule ward_inv_set_bed[OF invb, where k = "ipd_bedId r" and nb = "Some (free_bed ob)"])
    show "distinct (map fst ?bs)"
      by (intro distinct_put_doc distinct_findByIdAndUpdate ward_inv_beds_distinct[OF inv])
    show "findById j ?bs = (if j = ipd_bedId r then Some (free_bed ob) else findById j (beds ?stb))" for j
      using ne by (simp add: findById_put_doc findById_findByIdAndUpdate ob)
  next
    fix b' assume "Some (free_bed ob) = Some b'"
    then show "(bed_state b' = OCCUPIED) = (currentPatient b' \<noteq> None)"
      by (auto simp add: free_bed_def)
  next
    fix j r' assume a: "findById j (ipdRecords ?stb) = Some r'" "ipd_state r' = ADMITTED"
      "ipd_bedId r' = ipd_bedId r"
    then have "j \<noteq> i" using ne by (auto simp add: findById_put_doc)
    with a(1) have "findById j (ipdRecords st) = Some r'" by (simp add: findById_put_doc)
    from ward_inv_same_bed[OF inv this a(2) r a(3)] \<open>j \<noteq> i\<close>
    show "\<exists>b'. Some (free_bed ob) = Some b' \<and> bed_state b' = OCCUPIED \<and>
            currentPatient b' = Some (ipd_patientId r')" by simp
  qed
  then show ?thesis unfolding st' by (simp add: store_update_commute)
qed

lemma ward_reachable_inv: "ward_reachable st \<Longrightarrow> ward_inv st"
proof (induction rule: ward_reachable.induct)
  case (no_beds st)
  then show ?case by (simp add: ward_inv_def findById_def)
next
  case (unrelated st st')
  then show ?case by (simp add: ward_inv_def)
qed (blast intro: ward_inv_createBed ward_inv_updateBed ward_inv_deleteBed
       ward_inv_markMaintenance ward_inv_admitPatient ward_inv_dischargePatient
       ward_inv_transferPatient)+

lemma list_all_lookup:
  assumes "distinct (map fst xs)"
  shows "list_all P xs \<longleftrightarrow> (\<forall>k v. map_of xs k = Some v \<longrightarrow> P (k, v))"
  using assms by (auto simp add: list_all_iff)

subsection \<open>Claim C5: the bed and stay invariant\<close>

text \<open>
  C5 as stated fails: \<open>updateBed\<close> writes the request body as it is.  A bed is created
  (AVAILABLE, no occupant); an update request that carries the status OCCUPIED is
  accepted, and the bed is OCCUPIED with no occupant.  And \<open>transferPatient\<close> does not
  ask for an ADMITTED stay: the transfer of a discharged stay frees the bed it names,
  which by then holds another patient's ADMITTED stay.
\<close>

theorem C5_counterexample:
  "createBed ''BED1'' bed_B1_input example_store = Inr store_with_bed \<and>
   updateBed ''BED1'' force_occupied store_with_bed = Inr store_forced \<and>
   \<not> bed_occupancy_ok store_forced \<and>
   bed_occupancy_ok store_bed_reused \<and> admitted_stays_ok store_bed_reused \<and>
   transferPatient ''U1'' 3000 ''S1'' ''BED2'' store_bed_reused = Inr store_bed_lost \<and>
   \<not> admitted_stays_ok store_bed_lost"
  by code_simp

text \<open>
  C5, amended: in every store reached through creating beds that are not OCCUPIED and
  have no occupant, updating beds with requests that keep their occupancy, deleting beds,
  marking beds for maintenance, admitting, discharging, and transferring ADMITTED stays,
  every bed is OCCUPIED exactly when it has an occupant, and the bed of every ADMITTED
  stay is OCCUPIED with that stay's patient as occupant.
\<close>

theorem C5_reachable_beds_and_stays:
  assumes "ward_reachable st"
  shows "bed_occupancy_ok st \<and> admitted_stays_ok st"
proof -
  from ward_reachable_inv[OF assms] have inv: "ward_inv st" .
  have "bed_occupancy_ok st"
    unfolding bed_occupancy_ok_def list_all_lookup[OF ward_inv_beds_distinct[OF inv]]
    using ward_inv_bed[OF inv] by (auto simp add: findById_def)
  moreover have "admitted_stays_ok st"
    unfolding admitted_stays_ok_def list_all_lookup[OF ward_inv_stays_distinct[OF inv]]
    using ward_inv_stay[OF inv] by (fastforce simp add: findById_def)
  ultimately show ?thesis by simp
qed

theorem C5_witness:
  "ward_reachable store_admitted \<and> bed_occupancy_ok store_admitted \<and>
   admitted_stays_ok store_admitted"
proof -
  have r0: "ward_reachable example_store"
    by (rule no_beds) (simp_all add: example_store_def)
  have r1: "ward_reachable store_with_bed"
    by (rule bed_created[OF r0 _ _ _ bed_B1_created])
       (simp_all add: bed_B1_input_def example_store_def findById_def)
  have r2: "ward_reachable store_admitted"
    by (rule admitted[OF r1 _ P1_admitted])
       (simp add: store_with_bed_def example_store_def findById_def)
  from C5_reachable_beds_and_stays[OF r2] r2 show ?thesis by simp
qed

subsection \<open>Claim C6: discharge\<close>

text \<open>
  What \<open>dischargePatient\<close> does for a stay that exists.  It is rejected with the 400
  response "Patient is not currently admitted" when the stay is not ADMITTED.  For an
  ADMITTED stay it ends with the validation error of the save, and writes nothing, when
  the summary cannot be cast; otherwise the stay becomes DISCHARGED with the discharge
  date and the summary recorded, and the bed that the stay names becomes AVAILABLE with
  no occupant.
\<close>

lemma dischargePatient_outcomes:
  assumes "findById i (ipdRecords st) = Some r"
  shows "(ipd_state r \<noteq> ADMITTED \<longrightarrow>
            dischargePatient now i summary st =
              Inl (BadRequest ''Patient is not currently admitted'')) \<and>
         (ipd_state r = ADMITTED \<longrightarrow>
            (case set_dischargeSummary summary
                    (r\<lparr>ipd_state := DISCHARGED, dischargeDate := Some now\<rparr>) of
               None \<Rightarrow>
                 dischargePatient now i summary st =
                   Inl (ValidationError ''IPDRecord validation failed'')
             | Some nr \<Rightarrow>
                 (\<exists>st'. dischargePatient now i summary st = Inr st' \<and>
                    findById i (ipdRecords st') = Some nr \<and>
                    (\<forall>b. findById (ipd_bedId r) (beds st) = Some b \<longrightarrow>
                       findById (ipd_bedId r) (beds st') =
                         Some (b\<lparr>bed_state := AVAILABLE, currentPatient := None\<rparr>)))))"
  unfolding dischargePatient_cases[OF assms]
  by (simp add: findById_put_doc findById_findByIdAndUpdate free_bed_def split: option.splits)

lemma set_dischargeSummary_absent:
  "set_dischargeSummary No_summary r = Some (r\<lparr>dischargeSummary := None\<rparr>)"
  by (simp add: set_dischargeSummary_def)

lemma set_dischargeSummary_text: "set_dischargeSummary (Summary_text c cs) r = None"
  by (simp add: set_dischargeSummary_def)

lemma set_dischargeSummary_object:
  "set_dischargeSummary (Summary_object obj) r =
     map_option (\<lambda>s. r\<lparr>dischargeSummary := Some s\<rparr>) (cast_summary obj)"
  by (simp add: set_dischargeSummary_def split: option.splits)

text \<open>A summary of text is rejected for every ADMITTED stay, whatever the text.\<close>

lemma dischargePatient_text:
  assumes "findById i (ipdRecords st) = Some r" and "ipd_state r = ADMITTED"
  shows "dischargePatient now i (Summary_text c cs) st =
           Inl (ValidationError ''IPDRecord validation failed'')"
  unfolding dischargePatient_cases[OF assms(1)] using assms(2)
  by (simp add: set_dischargeSummary_text)

text \<open>
  Scenario D without a summary and with a summary sent as an object; an object whose
  follow-up date is no date is rejected like the text.
\<close>

lemma scenario_D_object_summary:
  "dischargePatient 2000 ''S1'' object_summary store_admitted =
     Inr (example_store
       \<lparr>beds := [(''BED1'', bed_B1)],
        ipdRecords := [(''S1'', stay_S1\<lparr>ipd_state := DISCHARGED, dischargeDate := Some 2000,
                                        dischargeSummary := Some recorded_summary\<rparr>)]\<rparr>) \<and>
   dischargePatient 2000 ''S1'' bad_date_summary store_admitted =
     Inl (ValidationError ''IPDRecord validation failed'')"
  by code_simp

text \<open>
  C6 fails on the code for the summary that the discharge form sends.  The form sends
  the text of a required textarea (pages/ipd/IPDRecords.jsx, lines 508-516) and the
  record view prints the stored summary as text (lines 630-634), while the schema
  declares the summary as an object (models/IPDRecord.js, lines 96-105).  For the
  ADMITTED stay of scenario C and the summary "Recovered", \<open>dischargePatient\<close> ends
  with the validation error of the save, which comes before the release of the bed: the
  store is as it was, the stay ADMITTED and the bed OCCUPIED by the patient, where C6 has
  the stay DISCHARGED and the bed AVAILABLE.
\<close>

theorem C6_text_summary_rejected:
  "map_option ipd_state (findById ''S1'' (ipdRecords store_admitted)) = Some ADMITTED \<and>
   map_option bed_state (findById ''BED1'' (beds store_admitted)) = Some OCCUPIED \<and>
   dischargePatient 2000 ''S1'' text_summary store_admitted =
     Inl (ValidationError ''IPDRecord validation failed'')"
  by code_simp

subsection \<open>Booking an appointment\<close>

lemma day_range_gen:
  fixes m :: int
  assumes m: "0 < m"
  shows "(t - t mod m \<le> x \<and> x \<le> t - t mod m + (m - 1)) \<longleftrightarrow> x div m = t div m"
proof
  assume a: "t - t mod m \<le> x \<and> x \<le> t - t mod m + (m - 1)"
  have t: "t - t mod m = m * (t div m)" by (simp add: minus_mod_eq_mult_div)
  from a t have "x = m * (t div m) + (x - m * (t div m))" "0 \<le> x - m * (t div m)"
    "x - m * (t div m) < m" by simp_all
  then show "x div m = t div m" by (rule int_div_pos_eq)
next
  assume e: "x div m = t div m"
  have t: "t - t mod m = m * (x div m)" by (simp add: minus_mod_eq_mult_div e)
  have x: "x = m * (x div m) + x mod m" by simp
  from m have "0 \<le> x mod m" "x mod m < m" by simp_all
  with x show "t - t mod m \<le> x \<and> x \<le> t - t mod m + (m - 1)" unfolding t by linarith
qed

lemma day_range: "startOfDay d \<le> x \<and> x \<le> endOfDay d \<longleftrightarrow> same_day x d"
  unfolding startOfDay_def endOfDay_def same_day_def
  using day_range_gen[of 86400000 d x] by simp














subsection \<open>Claim C7: one booking per slot\<close>




subsection \<open>Listing the slots of a day\<close>

lemma slot_count_0: "0 < dur \<Longrightarrow> \<not> c < e \<Longrightarrow> slot_count c e dur = 0"
proof -
  assume d: "0 < dur" and n: "\<not> c < e"
  show ?thesis
  proof (cases "0 \<le> e - c + dur - 1")
    case True
    moreover from n have "e - c + dur - 1 < dur" by simp
    ultimately have "(e - c + dur - 1) div dur = 0" by (rule div_pos_pos_trivial)
    then show ?thesis by (simp add: slot_count_def)
  next
    case False
    then have "(e - c + dur - 1) div dur < 0" using d by (simp add: pos_imp_zdiv_neg_iff)
    then show ?thesis by (simp add: slot_count_def)
  qed
qed

lemma slot_count_Suc:
  assumes d: "0 < dur" and lt: "c < e"
  shows "slot_count c e dur = Suc (slot_count (c + dur) e dur)"
proof -
  have "e - c + dur - 1 = (e - (c + dur) + dur - 1) + dur" by simp
  moreover have "(e - (c + dur) + dur - 1 + dur) div dur = (e - (c + dur) + dur - 1) div dur + 1"
    using d by (intro div_add_self2) simp
  ultimately have eq: "(e - c + dur - 1) div dur = (e - (c + dur) + dur - 1) div dur + 1"
    by (simp only:)
  have "0 \<le> e - (c + dur) + dur - 1" using lt by simp
  then have "0 \<le> (e - (c + dur) + dur - 1) div dur" using d by (simp add: pos_imp_zdiv_nonneg_iff)
  with eq show ?thesis by (simp add: slot_count_def nat_add_distrib)
qed

lemma slot_count_less:
  assumes d: "0 < dur"
  shows "k < slot_count c e dur \<longleftrightarrow> c + int k * dur < e"
proof (induction k arbitrary: c)
  case 0
  show ?case
  proof (cases "c < e")
    case True with slot_count_Suc[OF d True] show ?thesis by simp
  next
    case False with slot_count_0[OF d False] show ?thesis by simp
  qed
next
  case (Suc k)
  show ?case
  proof (cases "c < e")
    case True
    have "c + dur + int k * dur = c + int (Suc k) * dur" by (simp add: algebra_simps)
    with Suc[of "c + dur"] slot_count_Suc[OF d True] show ?thesis by simp
  next
    case False
    have "0 \<le> int (Suc k) * dur" using d by simp
    with False have "\<not> c + int (Suc k) * dur < e" by linarith
    with slot_count_0[OF d False] show ?thesis by simp
  qed
qed

lemma slots_loop_eq:
  assumes d: "0 < dur"
  shows "slots_loop c e dur acc =
           Some (acc @ map (\<lambda>k. formatTime (c + int k * dur)) [0..<slot_count c e dur])"
proof (induction n \<equiv> "slot_count c e dur" arbitrary: c acc)
  case 0
  with slot_count_Suc[OF d, of c e] have "\<not> c < e" by auto
  with 0 show ?case by (subst slots_loop.simps) simp
next
  case (Suc n)
  then have lt: "c < e" using slot_count_0[OF d, of c e] by auto
  from Suc(2) slot_count_Suc[OF d lt] have n: "n = slot_count (c + dur) e dur" by simp
  have m: "map (\<lambda>k. formatTime (c + int k * dur)) [0..<Suc n] =
           formatTime c # map (\<lambda>k. formatTime (c + dur + int k * dur)) [0..<n]"
    by (simp add: upt_conv_Cons map_Suc_upt[symmetric] algebra_simps del: upt_Suc)
  have "slots_loop c e dur acc = slots_loop (c + dur) e dur (acc @ [formatTime c])"
    using lt by (subst slots_loop.simps) simp
  also have "\<dots> = Some ((acc @ [formatTime c]) @
        map (\<lambda>k. formatTime (c + dur + int k * dur)) [0..<slot_count (c + dur) e dur])"
    by (rule Suc(1)[OF n])
  finally have "slots_loop c e dur acc =
      Some (acc @ formatTime c # map (\<lambda>k. formatTime (c + dur + int k * dur)) [0..<n])"
    using n by simp
  then show ?case unfolding Suc(2)[symmetric] m .
qed

lemma booked_iff: "t \<in> set (bookedTimes doctorId d st) \<longleftrightarrow> slot_taken doctorId d t st"
proof -
  have "t \<in> set (bookedTimes doctorId d st) \<longleftrightarrow>
        (\<exists>(j, a) \<in> set (appointments st). apt_doctorId a = doctorId \<and> startOfDay d \<le> apt_date a \<and>
            apt_date a \<le> endOfDay d \<and> blocks_slot (apt_state a) \<and> apt_time a = t)"
    unfolding bookedTimes_def by force
  also have "\<dots> \<longleftrightarrow> (\<exists>(j, a) \<in> set (appointments st). apt_doctorId a = doctorId \<and>
            same_day (apt_date a) d \<and> apt_time a = t \<and> blocks_slot (apt_state a))"
    using day_range by blast
  also have "\<dots> \<longleftrightarrow> slot_taken doctorId d t st"
    unfolding slot_taken_def bookings_of_def filter_empty_conv by blast
  finally show ?thesis .
qed

lemma generateTimeSlots_eq:
  assumes "parseTime startTime = Some s" and "parseTime endTime = Some e" and "0 < dur"
  shows "generateTimeSlots startTime endTime dur =
           Some (map (\<lambda>k. formatTime (s + int k * dur)) [0..<slot_count s e dur])"
  unfolding generateTimeSlots_def using assms by (simp add: slots_loop_eq)

subsection \<open>Claim C8: the slots of a day\<close>

text \<open>
  C8 as stated fails: the token 09:00 of an appointment that is COMPLETED, hence not
  cancelled, is listed as free.
\<close>

theorem C8_counterexample:
  "length (spec_occupants ''D1'' monday ''09:00'' clinic_completed) = 1 \<and>
   getAvailableSlots ''D1'' (Some monday) clinic_completed =
     Some (Inr \<lparr>sr_available = True, sr_message = None, sr_day = Some ''Monday'',
                sr_slots = [\<lparr>slot_time = ''09:00'', slot_available = True\<rparr>,
                            \<lparr>slot_time = ''09:30'', slot_available = True\<rparr>]\<rparr>)"
  by code_simp

text \<open>
  C8, amended: when the doctor has no window for the weekday of the date, the answer is
  an empty slot list, marked not available, with the message naming the day.  With a
  window whose start and end tokens parse to \<open>s\<close> and \<open>e\<close> minutes and a positive slot
  duration, the answer lists exactly the tokens of \<open>s\<close>, \<open>s + duration\<close>, ... that lie
  strictly before \<open>e\<close>, each marked booked exactly when an appointment of that doctor on
  that day in status SCHEDULED or CONFIRMED has the token.
\<close>

theorem C8_available_slots:
  assumes doc: "findById doctorId (doctors st) = Some doc"
  shows "(find (\<lambda>a. av_day a = dayName d) (availability doc) = None \<longrightarrow>
            getAvailableSlots doctorId (Some d) st =
              Some (Inr \<lparr>sr_available = False,
                         sr_message = Some (''Doctor is not available on '' @ dayName d),
                         sr_day = None, sr_slots = []\<rparr>)) \<and>
         (find (\<lambda>a. av_day a = dayName d) (availability doc) = Some w \<longrightarrow>
          parseTime (av_startTime w) = Some s \<longrightarrow> parseTime (av_endTime w) = Some e \<longrightarrow>
          0 < slotDuration doc \<longrightarrow>
            getAvailableSlots doctorId (Some d) st =
              Some (Inr \<lparr>sr_available = True, sr_message = None, sr_day = Some (dayName d),
                 sr_slots = map (\<lambda>k. \<lparr>slot_time = formatTime (s + int k * slotDuration doc),
                      slot_available =
                        (\<not> slot_taken doctorId d (formatTime (s + int k * slotDuration doc)) st)\<rparr>)
                   [0..<slot_count s e (slotDuration doc)]\<rparr>) \<and>
            (\<forall>k. (k < slot_count s e (slotDuration doc)) = (s + int k * slotDuration doc < e)))"
proof (intro conjI impI)
  assume "find (\<lambda>a. av_day a = dayName d) (availability doc) = None"
  then show "getAvailableSlots doctorId (Some d) st =
              Some (Inr \<lparr>sr_available = False,
                         sr_message = Some (''Doctor is not available on '' @ dayName d),
                         sr_day = None, sr_slots = []\<rparr>)"
    unfolding getAvailableSlots_def using doc by simp
next
  assume w: "find (\<lambda>a. av_day a = dayName d) (availability doc) = Some w"
    and s: "parseTime (av_startTime w) = Some s" and e: "parseTime (av_endTime w) = Some e"
    and dur: "0 < slotDuration doc"
  show "getAvailableSlots doctorId (Some d) st =
              Some (Inr \<lparr>sr_available = True, sr_message = None, sr_day = Some (dayName d),
                 sr_slots = map (\<lambda>k. \<lparr>slot_time = formatTime (s + int k * slotDuration doc),
                      slot_available =
                        (\<not> slot_taken doctorId d (formatTime (s + int k * slotDuration doc)) st)\<rparr>)
                   [0..<slot_count s e (slotDuration doc)]\<rparr>)"
    unfolding getAvailableSlots_def using doc w
    by (simp add: generateTimeSlots_eq[OF s e dur] booked_iff o_def)
  show "\<forall>k. (k < slot_count s e (slotDuration doc)) = (s + int k * slotDuration doc < e)"
    using slot_count_less[OF dur] by blast
qed

theorem C8_witness:
  "getAvailableSlots ''D1'' (Some monday) clinic =
     Some (Inr \<lparr>sr_available = True, sr_message = None, sr_day = Some ''Monday'',
                sr_slots = [\<lparr>slot_time = ''09:00'', slot_available = True\<rparr>,
                            \<lparr>slot_time = ''09:30'', slot_available = True\<rparr>]\<rparr>) \<and>
   getAvailableSlots ''D1'' (Some monday) clinic_booked =
     Some (Inr \<lparr>sr_available = True, sr_message = None, sr_day = Some ''Monday'',
                sr_slots = [\<lparr>slot_time = ''09:00'', slot_available = False\<rparr>,
                            \<lparr>slot_time = ''09:30'', slot_available = True\<rparr>]\<rparr>) \<and>
   getAvailableSlots ''D1'' (Some tuesday) clinic =
     Some (Inr \<lparr>sr_available = False,
                sr_message = Some ''Doctor is not available on Tuesday'',
                sr_day = None, sr_slots = []\<rparr>)"
proof -
  let ?w = "\<lparr>av_day = ''Monday'', av_startTime = ''09:00'', av_endTime = ''10:00''\<rparr>"
  have doc: "findById ''D1'' (doctors clinic) = Some doctor_D1" by code_simp
  have doc': "findById ''D1'' (doctors clinic_booked) = Some doctor_D1" by code_simp
  have mon: "dayName monday = ''Monday''" by code_simp
  have tue: "dayName tuesday = ''Tuesday''" by code_simp
  have w: "find (\<lambda>a. av_day a = dayName monday) (availability doctor_D1) = Some ?w"
    unfolding mon by (simp add: doctor_D1_def)
  have nw: "find (\<lambda>a. av_day a = dayName tuesday) (availability doctor_D1) = None"
    unfolding tue by (simp add: doctor_D1_def)
  have s: "parseTime (av_startTime ?w) = Some 540" by code_simp
  have e: "parseTime (av_endTime ?w) = Some 600" by code_simp
  have dur: "0 < slotDuration doctor_D1" "slotDuration doctor_D1 = 30"
    by (simp_all add: doctor_D1_def)
  have n: "[0..<slot_count 540 600 30] = [0, 1]" by code_simp
  have f: "formatTime 540 = ''09:00''" "formatTime 570 = ''09:30''" by code_simp+
  have t: "\<not> slot_taken ''D1'' monday ''09:00'' clinic" "\<not> slot_taken ''D1'' monday ''09:30'' clinic"
    "slot_taken ''D1'' monday ''09:00'' clinic_booked"
    "\<not> slot_taken ''D1'' monday ''09:30'' clinic_booked" by code_simp+
  from C8_available_slots[OF doc, of monday ?w 540 600] w s e dur n f t mon
  have 1: "getAvailableSlots ''D1'' (Some monday) clinic =
     Some (Inr \<lparr>sr_available = True, sr_message = None, sr_day = Some ''Monday'',
                sr_slots = [\<lparr>slot_time = ''09:00'', slot_available = True\<rparr>,
                            \<lparr>slot_time = ''09:30'', slot_available = True\<rparr>]\<rparr>)"
    by simp
  from C8_available_slots[OF doc', of monday ?w 540 600] w s e dur n f t mon
  have 2: "getAvailableSlots ''D1'' (Some monday) clinic_booked =
     Some (Inr \<lparr>sr_available = True, sr_message = None, sr_day = Some ''Monday'',
                sr_slots = [\<lparr>slot_time = ''09:00'', slot_available = False\<rparr>,
                            \<lparr>slot_time = ''09:30'', slot_available = True\<rparr>]\<rparr>)"
    by simp
  from C8_available_slots[OF doc, of tuesday] nw tue
  have 3: "getAvailableSlots ''D1'' (Some tuesday) clinic =
     Some (Inr \<lparr>sr_available = False,
                sr_message = Some ''Doctor is not available on Tuesday'',
                sr_day = None, sr_slots = []\<rparr>)"
    by simp
  from 1 2 3 show ?thesis by simp
qed

subsection \<open>Claim C9: maintenance and deletion of beds\<close>

text \<open>
  C9 as stated fails in one point: \<open>markMaintenance\<close> succeeds on every bed that is not
  OCCUPIED, also on one that is already under MAINTENANCE (neither AVAILABLE nor
  RESERVED).
\<close>

theorem C9_counterexample:
  "map_option bed_state (findById ''BED1'' (beds store_maintenance)) = Some MAINTENANCE \<and>
   markMaintenance ''BED1'' (Some ''Repainting'') store_maintenance = Inr store_maintenance_again"
  by code_simp

text \<open>
  C9, amended: on an OCCUPIED bed \<open>markMaintenance\<close> and \<open>deleteBed\<close> are rejected with
  their 400 responses; on every other bed (AVAILABLE, RESERVED or MAINTENANCE) both
  succeed, the one leaving the bed under MAINTENANCE, the other removing it.  So neither
  operation deletes an OCCUPIED bed or puts it under MAINTENANCE.
\<close>

theorem C9_maintenance_and_delete:
  assumes "findById i (beds st) = Some bed"
  shows "(bed_state bed = OCCUPIED \<longrightarrow>
            markMaintenance i notes st =
              Inl (BadRequest ''Cannot mark occupied bed for maintenance'') \<and>
            deleteBed i st = Inl (BadRequest ''Cannot delete an occupied bed'')) \<and>
         (bed_state bed \<noteq> OCCUPIED \<longrightarrow>
            (\<exists>st'. markMaintenance i notes st = Inr st' \<and>
               findById i (beds st') =
                 Some (bed\<lparr>bed_state := MAINTENANCE,
                           bed_notes := Some (maintenance_notes notes)\<rparr>)) \<and>
            (\<exists>st'. deleteBed i st = Inr st' \<and> findById i (beds st') = None))"
  unfolding markMaintenance_cases[OF assms] deleteBed_cases[OF assms]
  by (simp add: findById_put_doc findById_deleteOne)

theorem C9_witness:
  "(\<exists>st'. markMaintenance ''BED1'' None store_with_bed = Inr st' \<and>
      findById ''BED1'' (beds st') =
        Some (bed_B1\<lparr>bed_state := MAINTENANCE, bed_notes := Some ''Under maintenance''\<rparr>)) \<and>
   (\<exists>st'. deleteBed ''BED1'' store_with_bed = Inr st' \<and> findById ''BED1'' (beds st') = None) \<and>
   markMaintenance ''BED1'' None store_admitted =
     Inl (BadRequest ''Cannot mark occupied bed for maintenance'') \<and>
   deleteBed ''BED1'' store_admitted = Inl (BadRequest ''Cannot delete an occupied bed'')"
proof -
  have b: "findById ''BED1'' (beds store_with_bed) = Some bed_B1" by code_simp
  have a: "bed_state bed_B1 \<noteq> OCCUPIED" by (simp add: bed_B1_def)
  have n: "maintenance_notes None = ''Under maintenance''" by (simp add: maintenance_notes_def)
  have b': "findById ''BED1'' (beds store_admitted) =
              Some (bed_B1\<lparr>bed_state := OCCUPIED, currentPatient := Some ''P1''\<rparr>)" by code_simp
  from C9_maintenance_and_delete[OF b, of None] C9_maintenance_and_delete[OF b', of None] a n
  show ?thesis by simp
qed

subsection \<open>Claim C10: transfer\<close>

text \<open>
  C10 as stated fails when the requested bed is the bed that the stay already names:
  after admission and discharge the stay is DISCHARGED and its bed B-1 is AVAILABLE; the
  transfer of that stay to B-1 succeeds, and B-1, the old bed, ends OCCUPIED.
\<close>

theorem C10_counterexample:
  "admitPatient ''S1'' 1000 admit_P1 store_with_bed = Inr store_admitted \<and>
   dischargePatient 2000 ''S1'' No_summary store_admitted = Inr store_discharged \<and>
   transferPatient ''U1'' 3000 ''S1'' ''BED1'' store_discharged = Inr store_retransferred \<and>
   map_option ipd_bedId (findById ''S1'' (ipdRecords store_discharged)) = Some ''BED1'' \<and>
   map_option bed_state (findById ''BED1'' (beds store_retransferred)) = Some OCCUPIED"
  by code_simp

text \<open>
  C10, amended: for every stay that exists, whatever its state, and every requested bed
  that exists and is AVAILABLE, \<open>transferPatient\<close> succeeds: the requested bed becomes
  OCCUPIED with the stay's patient as occupant; the old bed, when it exists and is not the
  requested one, becomes AVAILABLE with no occupant; the stay names the requested bed,
  keeps its state, and has one more treatment note, by the acting user.
\<close>

theorem C10_transfer:
  assumes "findById i (ipdRecords st) = Some r"
      and "findById newBedId (beds st) = Some nb"
      and "bed_state nb = AVAILABLE"
  shows "\<exists>st'. transferPatient user now i newBedId st = Inr st' \<and>
           findById newBedId (beds st') =
             Some (nb\<lparr>bed_state := OCCUPIED, currentPatient := Some (ipd_patientId r)\<rparr>) \<and>
           (\<forall>ob. ipd_bedId r \<noteq> newBedId \<longrightarrow> findById (ipd_bedId r) (beds st) = Some ob \<longrightarrow>
              findById (ipd_bedId r) (beds st') =
                Some (ob\<lparr>bed_state := AVAILABLE, currentPatient := None\<rparr>)) \<and>
           findById i (ipdRecords st') =
             Some (r\<lparr>ipd_bedId := newBedId,
                     treatmentNotes := treatmentNotes r @ [transfer_note user now newBedId]\<rparr>)"
  unfolding transferPatient_cases[OF assms(1,2)] using assms(3)
  by (simp add: findById_put_doc findById_findByIdAndUpdate free_bed_def)

theorem C10_witness:
  "\<exists>st'. transferPatient ''U1'' 3000 ''S1'' ''BED2'' store_two_beds = Inr st' \<and>
     findById ''BED2'' (beds st') =
       Some (bed_B2\<lparr>bed_state := OCCUPIED, currentPatient := Some ''P1''\<rparr>) \<and>
     findById ''BED1'' (beds st') = Some bed_B1 \<and>
     findById ''S1'' (ipdRecords st') =
       Some (stay_S1\<lparr>ipd_bedId := ''BED2'',
                      treatmentNotes := [transfer_note ''U1'' 3000 ''BED2'']\<rparr>)"
proof -
  have r: "findById ''S1'' (ipdRecords store_two_beds) = Some stay_S1" by code_simp
  have nb: "findById ''BED2'' (beds store_two_beds) = Some bed_B2" by code_simp
  have a: "bed_state bed_B2 = AVAILABLE" by (simp add: bed_B2_def)
  have ob: "findById ''BED1'' (beds store_two_beds) =
              Some (bed_B1\<lparr>bed_state := OCCUPIED, currentPatient := Some ''P1''\<rparr>)" by code_simp
  have s: "ipd_bedId stay_S1 = ''BED1''" "ipd_patientId stay_S1 = ''P1''"
    "treatmentNotes stay_S1 = []"
    by (simp_all add: stay_S1_def)
  have e: "bed_B1\<lparr>bed_state := OCCUPIED, currentPatient := Some ''P1''\<rparr>
             \<lparr>bed_state := AVAILABLE, currentPatient := None\<rparr> = bed_B1"
    by (simp add: bed_B1_def)
  from C10_transfer[OF r nb a, where user = "''U1''" and now = 3000] obtain st' where
    st': "transferPatient ''U1'' 3000 ''S1'' ''BED2'' store_two_beds = Inr st'"
      "findById ''BED2'' (beds st') =
         Some (bed_B2\<lparr>bed_state := OCCUPIED, currentPatient := Some (ipd_patientId stay_S1)\<rparr>)"
      "\<forall>ob. ipd_bedId stay_S1 \<noteq> ''BED2'' \<longrightarrow>
          findById (ipd_bedId stay_S1) (beds store_two_beds) = Some ob \<longrightarrow>
          findById (ipd_bedId stay_S1) (beds st') =
            Some (ob\<lparr>bed_state := AVAILABLE, currentPatient := None\<rparr>)"
      "findById ''S1'' (ipdRecords st') =
         Some (stay_S1\<lparr>ipd_bedId := ''BED2'',
            treatmentNotes := treatmentNotes stay_S1 @ [transfer_note ''U1'' 3000 ''BED2'']\<rparr>)"
    by blast
  from st'(3) ob s(1) e have "findById ''BED1'' (beds st') = Some bed_B1" by simp
  with st'(1,2,4) s show ?thesis by simp
qed

end
